theory Spec2Isabelle
  imports Complex_Main
begin

section \<open>Python values, exceptions and the expressions of the module\<close>

text \<open>
  The module \<^verbatim>\<open>plugins/modules/backup.py\<close> is a straight line of HTTP calls, each followed
  by a check on the parsed JSON answer.  Exceptions are values: an expression that may raise
  has type \<open>exn + 'a\<close>, with \<open>Inl\<close> carrying the exception.  Every exception named here is
  a subclass of Python's \<^verbatim>\<open>Exception\<close>, so \<^verbatim>\<open>except Exception\<close> catches all of them,
  while \<^verbatim>\<open>except KeyError\<close> catches only \<open>KeyError\<close>.
\<close>

datatype exn =
    KeyError | TypeError | IndexError | ValueError | JSONDecodeError
  | AttributeError | ConnectionError

text \<open>
  A parsed JSON document, as \<^verbatim>\<open>Response.json()\<close> returns it: \<open>JObj\<close> is a Python dict
  (in insertion order), \<open>JList\<close> a list, \<open>JFloat\<close> a finite float.
\<close>

datatype json =
    JNull | JBool bool | JInt int | JFloat real | JStr string
  | JList "json list" | JObj "(string \<times> json) list"

definition bnd :: "exn + 'a \<Rightarrow> ('a \<Rightarrow> exn + 'b) \<Rightarrow> exn + 'b" where
  "bnd x f = (case x of Inl e \<Rightarrow> Inl e | Inr v \<Rightarrow> f v)"

text \<open>\<^verbatim>\<open>v[k]\<close> for a string key: only a dict can be subscripted by a string.\<close>

fun getitem :: "json \<Rightarrow> string \<Rightarrow> exn + json" where
  "getitem (JObj kvs) k = (case map_of kvs k of None \<Rightarrow> Inl KeyError | Some v \<Rightarrow> Inr v)"
| "getitem _ k = Inl TypeError"

text \<open>
  \<^verbatim>\<open>for x in v\<close>: a list yields its elements, a dict its keys, a string its characters;
  anything else is not iterable.
\<close>

fun py_iter :: "json \<Rightarrow> exn + json list" where
  "py_iter (JList xs) = Inr xs"
| "py_iter (JObj kvs) = Inr (map (\<lambda>kv. JStr (fst kv)) kvs)"
| "py_iter (JStr s) = Inr (map (\<lambda>c. JStr [c]) s)"
| "py_iter _ = Inl TypeError"

text \<open>
  \<^verbatim>\<open>v == p\<close> where \<open>p\<close> is a module parameter: a \<^verbatim>\<open>str\<close>, or \<^verbatim>\<open>None\<close> when the parameter
  was not given.
\<close>

fun py_eq :: "json \<Rightarrow> string option \<Rightarrow> bool" where
  "py_eq v None = (v = JNull)"
| "py_eq v (Some s) = (v = JStr s)"

text \<open>
  \<^verbatim>\<open>[elt(x) for x in xs if cond(x)]\<close>: the condition, then the element, of each item in
  order; the first exception ends the whole comprehension.
\<close>

fun comprehension ::
  "(json \<Rightarrow> exn + bool) \<Rightarrow> (json \<Rightarrow> exn + 'a) \<Rightarrow> json list \<Rightarrow> exn + 'a list" where
  "comprehension cond elt [] = Inr []"
| "comprehension cond elt (x # xs) =
     bnd (cond x) (\<lambda>b.
       if b then bnd (elt x) (\<lambda>y. bnd (comprehension cond elt xs) (\<lambda>ys. Inr (y # ys)))
       else comprehension cond elt xs)"

text \<open>\<^verbatim>\<open>xs[0]\<close>\<close>

fun first :: "'a list \<Rightarrow> exn + 'a" where
  "first [] = Inl IndexError"
| "first (x # xs) = Inr x"

text \<open>
  \<^verbatim>\<open>int(v)\<close> on a JSON value.  Python's parser of a \<^verbatim>\<open>str\<close> into an integer is a
  parameter \<open>int_str\<close> (\<open>None\<close> where \<^verbatim>\<open>int\<close> raises \<^verbatim>\<open>ValueError\<close>).
\<close>

fun py_int :: "(string \<Rightarrow> int option) \<Rightarrow> json \<Rightarrow> exn + int" where
  "py_int int_str (JInt i) = Inr i"
| "py_int int_str (JBool b) = Inr (if b then 1 else 0)"
| "py_int int_str (JFloat r) = Inr (if 0 \<le> r then \<lfloor>r\<rfloor> else \<lceil>r\<rceil>)"
| "py_int int_str (JStr s) = (case int_str s of None \<Rightarrow> Inl ValueError | Some i \<Rightarrow> Inr i)"
| "py_int int_str _ = Inl TypeError"

subsection \<open>Strings\<close>

definition rstrip :: "(char \<Rightarrow> bool) \<Rightarrow> string \<Rightarrow> string" where
  "rstrip strip s = rev (dropWhile strip (rev s))"

text \<open>\<^verbatim>\<open>str.isspace\<close> on the code points below 256.\<close>

definition isspace :: "char \<Rightarrow> bool" where
  "isspace c =
     (let n = (of_char c :: nat)
      in (9 \<le> n \<and> n \<le> 13) \<or> (28 \<le> n \<and> n \<le> 32) \<or> n = 133 \<or> n = 160)"

fun str_nat :: "nat \<Rightarrow> string" where
  "str_nat n =
     (if n < 10 then [''0123456789'' ! n]
      else str_nat (n div 10) @ [''0123456789'' ! (n mod 10)])"

declare str_nat.simps [simp del]

definition str_int :: "int \<Rightarrow> string" where
  "str_int i = (if i < 0 then ''-'' @ str_nat (nat (- i)) else str_nat (nat i))"

text \<open>\<^verbatim>\<open>str(p)\<close> of a module parameter inside an f-string.\<close>

fun str_param :: "string option \<Rightarrow> string" where
  "str_param None = ''None''"
| "str_param (Some s) = s"

definition quoted :: "string \<Rightarrow> string" where
  "quoted s = [CHR 0x27] @ s @ [CHR 0x27]"

section \<open>The HTTP client and the host framework\<close>

text \<open>
  An f-string that interpolates a JSON value is kept as its pieces: \<open>Lit\<close> is literal text
  (or an interpolated \<^verbatim>\<open>str\<close>), \<open>Val\<close> an interpolated JSON value.
\<close>

datatype part = Lit string | Val json

datatype http_method = GET | POST

record request =
  meth :: http_method
  url :: "part list"
  headers :: "(string \<times> part list) list"
  json_body :: "json option"

text \<open>A response: its status and its parsed body, \<open>None\<close> when the body is not JSON.\<close>

record response =
  status_code :: int
  content :: "json option"

definition response_json :: "response \<Rightarrow> exn + json" where
  "response_json r = (case content r of None \<Rightarrow> Inl JSONDecodeError | Some j \<Rightarrow> Inr j)"

text \<open>
  The service is the sequence of the responses it will give, consumed one per call; when
  none is left the call raises.  Every request made is recorded, in order.
\<close>

record world =
  pending :: "response list"
  sent :: "request list"

definition requests_send :: "request \<Rightarrow> world \<Rightarrow> (exn + response) \<times> world" where
  "requests_send rq w =
     (case pending w of
        [] \<Rightarrow> (Inl ConnectionError, w\<lparr>sent := sent w @ [rq]\<rparr>)
      | r # rs \<Rightarrow> (Inr r, \<lparr>pending = rs, sent = sent w @ [rq]\<rparr>))"

text \<open>
  What the module hands to the host framework: the keyword arguments of \<^verbatim>\<open>exit_json\<close> or
  of \<^verbatim>\<open>fail_json\<close> (both end the process), or an exception nobody caught.  \<open>Rejected\<close>
  is the framework's own failure of an invocation whose parameters do not fit the argument
  specification, raised by the constructor of \<^verbatim>\<open>AnsibleModule\<close> with a message of the
  framework that lists the parameters.
\<close>

datatype pyval = PBool bool | PStr string | PBackup

datatype rejection = UnsupportedParameters "string list" | MissingRequired "string list"

datatype outcome =
    Exit "(string \<times> pyval) list"
  | Fail "(string \<times> pyval) list"
  | Crash exn
  | Rejected rejection

record arg_option =
  arg_type :: string
  required :: bool

record ansible_module =
  params :: "string \<Rightarrow> string option"
  check_mode :: bool

text \<open>An invocation: the parameters the task gives, by name, and whether it runs in check mode.\<close>

record invocation =
  given_args :: "(string \<times> string) list"
  run_check_mode :: bool

text \<open>
  The part of \<^verbatim>\<open>AnsibleModule(argument_spec=..., supports_check_mode=True)\<close> the module
  relies on.  The constructor validates the parameters before anything else, check mode or
  not: an invocation with a parameter that the specification does not declare is failed, and
  so is one that lacks a parameter declared \<open>required\<close>.  Every declared parameter that was
  not given is \<^verbatim>\<open>None\<close>.
\<close>

definition AnsibleModule ::
  "(string \<times> arg_option) list \<Rightarrow> invocation \<Rightarrow> outcome + ansible_module" where
  "AnsibleModule spec call =
     (let given = map_of (given_args call);
          unsupported = filter (\<lambda>k. k \<notin> set (map fst spec)) (map fst (given_args call));
          missing = map fst (filter (\<lambda>(k, opt). required opt \<and> given k = None) spec)
      in if unsupported \<noteq> [] then Inl (Rejected (UnsupportedParameters unsupported))
         else if missing \<noteq> [] then Inl (Rejected (MissingRequired missing))
         else Inr \<lparr>params = (\<lambda>k. if k \<in> set (map fst spec) then given k else None),
                   check_mode = run_check_mode call\<rparr>)"

text \<open>
  \<^verbatim>\<open>exit_json\<close> walks the values it is given before it prints them, and raises
  \<^verbatim>\<open>TypeError\<close> ("Value of unknown type") on one that is not a string, a number, a
  boolean, \<^verbatim>\<open>None\<close>, a date or a collection of these.  An instance of \<^verbatim>\<open>Backup\<close> is such
  a value: nothing is printed and the exception is not caught.
\<close>

definition exit_json :: "(string \<times> pyval) list \<Rightarrow> outcome" where
  "exit_json kw = (if list_ex (\<lambda>kv. snd kv = PBackup) kw then Crash TypeError else Exit kw)"

section \<open>\<^verbatim>\<open>Backup.application\<close>\<close>

definition required_right :: string where
  "required_right = ''Access to Backup & Recover''"

text \<open>
  Line 125: \<^verbatim>\<open>[True for r in session_json["rights"] if r["id"] == "Access to Backup & Recover"][0]\<close>
\<close>

definition rights_expr :: "json \<Rightarrow> exn + bool" where
  "rights_expr session_json =
     bnd (getitem session_json ''rights'') (\<lambda>rights.
     bnd (py_iter rights) (\<lambda>rs.
     bnd (comprehension (\<lambda>r. bnd (getitem r ''id'') (\<lambda>i. Inr (i = JStr required_right)))
                        (\<lambda>r. Inr True) rs)
         first))"

text \<open>
  Lines 136, 142 and 148, which differ in the name key only:
  \<^verbatim>\<open>[t["id"] for t in resp.json()["items"] if t[key] == name][0]\<close>
\<close>

definition lookup_expr :: "string \<Rightarrow> string option \<Rightarrow> response \<Rightarrow> exn + json" where
  "lookup_expr key name resp =
     bnd (response_json resp) (\<lambda>j.
     bnd (getitem j ''items'') (\<lambda>items.
     bnd (py_iter items) (\<lambda>ts.
     bnd (comprehension (\<lambda>t. bnd (getitem t key) (\<lambda>n. Inr (py_eq n name)))
                        (\<lambda>t. getitem t ''id'') ts)
         first)))"

definition base_headers :: "string \<Rightarrow> (string \<times> part list) list" where
  "base_headers access_token =
     [(''Authorization'', [Lit ''Bearer '', Lit access_token]),
      (''Content-Type'', [Lit ''application/json''])]"

definition session_headers :: "string \<Rightarrow> json \<Rightarrow> (string \<times> part list) list" where
  "session_headers access_token session_id =
     base_headers access_token
       @ [(''backupdr-management-session'', [Lit ''Actifio '', Val session_id])]"

definition backup_body :: "int \<Rightarrow> string option \<Rightarrow> json" where
  "backup_body pol label =
     JObj ([(''policy'', JObj [(''id'', JInt pol)])]
           @ (case label of
                None \<Rightarrow> []
              | Some l \<Rightarrow> if l \<noteq> [] then [(''label'', JStr l)] else []))"

text \<open>
  \<^verbatim>\<open>{backup_resp.json}\<close> in the f-string of line 163 names the method without calling it:
  what is formatted is the bound method, whose text shows the response's status only.
\<close>

definition bound_method_json :: "response \<Rightarrow> string" where
  "bound_method_json r =
     ''<bound method Response.json of <Response ['' @ str_int (status_code r) @ '']>>''"

text \<open>
  The local variables of lines 103 to 108.  \<open>template_name\<close>, \<open>policy_name\<close>, \<open>app_name\<close> and
  \<open>label\<close> are \<^verbatim>\<open>None\<close> when the parameter was not given.
\<close>

record locals =
  api_url :: string
  access_token :: string
  template_name :: "string option"
  policy_name :: "string option"
  app_name :: "string option"
  label :: "string option"

text \<open>
  A call of \<^verbatim>\<open>requests.post\<close> or \<^verbatim>\<open>requests.get\<close> outside any \<^verbatim>\<open>try\<close>: an exception of
  the call ends the module, otherwise the rest of the function runs on the response.
\<close>

definition requests_call ::
  "request \<Rightarrow> world \<Rightarrow> (response \<Rightarrow> world \<Rightarrow> outcome \<times> world) \<Rightarrow> outcome \<times> world" where
  "requests_call rq w rest =
     (case requests_send rq w of
        (Inl e, w') \<Rightarrow> (Crash e, w')
      | (Inr r, w') \<Rightarrow> rest r w')"

text \<open>The five requests, as lines 114, 134, 140, 146 and 160 build them.\<close>

definition session_request :: "locals \<Rightarrow> request" where
  "session_request v =
     \<lparr>meth = POST, url = [Lit (api_url v), Lit ''/session''],
      headers = base_headers (access_token v), json_body = None\<rparr>"

definition template_request :: "locals \<Rightarrow> (string \<times> part list) list \<Rightarrow> request" where
  "template_request v hdrs =
     \<lparr>meth = GET, url = [Lit (api_url v), Lit ''/slt''],
      headers = hdrs, json_body = None\<rparr>"

definition policy_request :: "locals \<Rightarrow> (string \<times> part list) list \<Rightarrow> json \<Rightarrow> request" where
  "policy_request v hdrs tpl_id =
     \<lparr>meth = GET, url = [Lit (api_url v), Lit ''/slt/'', Val tpl_id, Lit ''/policy''],
      headers = hdrs, json_body = None\<rparr>"

definition app_request :: "locals \<Rightarrow> (string \<times> part list) list \<Rightarrow> request" where
  "app_request v hdrs =
     \<lparr>meth = GET, url = [Lit (api_url v), Lit ''/application''],
      headers = hdrs, json_body = None\<rparr>"

definition backup_request ::
  "locals \<Rightarrow> (string \<times> part list) list \<Rightarrow> json \<Rightarrow> int \<Rightarrow> request" where
  "backup_request v hdrs app_id pol =
     \<lparr>meth = POST, url = [Lit (api_url v), Lit ''/application/'', Val app_id, Lit ''/backup''],
      headers = hdrs, json_body = Some (backup_body pol (label v))\<rparr>"

text \<open>
  \<^verbatim>\<open>Backup.application\<close> runs top to bottom; it is written here from its last block to
  its first, each block a function of what the blocks before it have computed.
\<close>

text \<open>Lines 152 to 165: the body, the backup call and its status.\<close>

definition application_backup ::
  "(string \<Rightarrow> int option) \<Rightarrow> locals \<Rightarrow> (string \<times> part list) list \<Rightarrow> json \<Rightarrow> json \<Rightarrow> world
     \<Rightarrow> outcome \<times> world" where
  "application_backup int_str v hdrs pol_id app_id w =
     (case py_int int_str pol_id of
        Inl e \<Rightarrow> (Crash e, w)
      | Inr pol \<Rightarrow>
          requests_call (backup_request v hdrs app_id pol) w
            (\<lambda>backup_resp w'.
               if status_code backup_resp < 200 \<or> status_code backup_resp > 204
               then (Fail [(''msg'', PStr (''Failed to initiate backup of application ''
                             @ quoted (str_param (app_name v))
                             @ '' (HTTP '' @ str_int (status_code backup_resp) @ '': ''
                             @ bound_method_json backup_resp @ '')''))], w')
               else (Exit [(''changed'', PBool True),
                           (''msg'', PStr (''Backup initiated for application ''
                             @ quoted (str_param (app_name v))))], w')))"

text \<open>Lines 146 to 150: the application lookup.\<close>

definition application_app ::
  "(string \<Rightarrow> int option) \<Rightarrow> locals \<Rightarrow> (string \<times> part list) list \<Rightarrow> json \<Rightarrow> world
     \<Rightarrow> outcome \<times> world" where
  "application_app int_str v hdrs pol_id w =
     requests_call (app_request v hdrs) w
       (\<lambda>app_resp w'.
          case lookup_expr ''appname'' (app_name v) app_resp of
            Inl e \<Rightarrow>
              (Fail [(''msg'', PStr (''Failed to retrieve application ''
                        @ quoted (str_param (app_name v))))], w')
          | Inr app_id \<Rightarrow> application_backup int_str v hdrs pol_id app_id w')"

text \<open>Lines 140 to 144: the policy lookup, under the template's id.\<close>

definition application_policy ::
  "(string \<Rightarrow> int option) \<Rightarrow> locals \<Rightarrow> (string \<times> part list) list \<Rightarrow> json \<Rightarrow> world
     \<Rightarrow> outcome \<times> world" where
  "application_policy int_str v hdrs tpl_id w =
     requests_call (policy_request v hdrs tpl_id) w
       (\<lambda>pol_resp w'.
          case lookup_expr ''name'' (policy_name v) pol_resp of
            Inl e \<Rightarrow>
              (Fail [(''msg'', PStr (''Failed to retrieve SLA template policy ''
                        @ quoted (str_param (policy_name v))
                        @ '' for SLA template '' @ quoted (str_param (template_name v))))], w')
          | Inr pol_id \<Rightarrow> application_app int_str v hdrs pol_id w')"

text \<open>Lines 132 to 138: the session header and the template lookup.\<close>

definition application_template ::
  "(string \<Rightarrow> int option) \<Rightarrow> locals \<Rightarrow> json \<Rightarrow> world \<Rightarrow> outcome \<times> world" where
  "application_template int_str v session_id w =
     requests_call (template_request v (session_headers (access_token v) session_id)) w
       (\<lambda>tpl_resp w'.
          case lookup_expr ''name'' (template_name v) tpl_resp of
            Inl e \<Rightarrow>
              (Fail [(''msg'', PStr (''Failed to retrieve SLA template ''
                        @ quoted (str_param (template_name v))))], w')
          | Inr tpl_id \<Rightarrow>
              application_policy int_str v (session_headers (access_token v) session_id) tpl_id w')"

text \<open>Lines 114 to 130: the session, its id and the entitlement check.\<close>

definition application_session ::
  "(string \<Rightarrow> int option) \<Rightarrow> locals \<Rightarrow> world \<Rightarrow> outcome \<times> world" where
  "application_session int_str v w =
     requests_call (session_request v) w
       (\<lambda>auth_resp w'.
          if status_code auth_resp \<noteq> 200
          then (Fail [(''changed'', PBool False),
                      (''msg'', PStr ''Failed authentication - ensure you have authenticated with gcloud'')], w')
          else
            (case response_json auth_resp of
               Inl e \<Rightarrow> (Crash e, w')
             | Inr session_json \<Rightarrow>
                 (case getitem session_json ''id'' of
                    Inl e \<Rightarrow>
                      if e = KeyError
                      then (Fail [(''msg'', PStr ''Failed to get session ID on authentication'')], w')
                      else (Crash e, w')
                  | Inr session_id \<Rightarrow>
                      if \<not> (case rights_expr session_json of Inl e \<Rightarrow> False | Inr b \<Rightarrow> b)
                      then (Fail [(''changed'', PBool False),
                                  (''msg'', PStr ''You do not have access to invoke BackupNow'')], w')
                      else application_template int_str v session_id w')))"

text \<open>
  Lines 101 to 108: \<^verbatim>\<open>rstrip\<close> on a parameter that is \<^verbatim>\<open>None\<close> raises \<^verbatim>\<open>AttributeError\<close>.
\<close>

definition read_params :: "ansible_module \<Rightarrow> exn + locals" where
  "read_params m =
     (case params m ''api_url'' of
        None \<Rightarrow> Inl AttributeError
      | Some u \<Rightarrow>
          (case params m ''access_token'' of
             None \<Rightarrow> Inl AttributeError
           | Some t \<Rightarrow>
               Inr \<lparr>api_url = rstrip (\<lambda>c. c = CHR ''/'') u,
                    access_token = rstrip isspace t,
                    template_name = params m ''template_name'',
                    policy_name = params m ''policy_name'',
                    app_name = params m ''app_name'',
                    label = params m ''label''\<rparr>))"

definition application ::
  "(string \<Rightarrow> int option) \<Rightarrow> ansible_module \<Rightarrow> world \<Rightarrow> outcome \<times> world" where
  "application int_str m w =
     (case read_params m of
        Inl e \<Rightarrow> (Crash e, w)
      | Inr v \<Rightarrow> application_session int_str v w)"

section \<open>\<^verbatim>\<open>main\<close>\<close>

text \<open>\<^verbatim>\<open>dict(type="str")\<close>: no \<^verbatim>\<open>required\<close> is given, and the framework's default is false.\<close>

definition dict_type_str :: arg_option where
  "dict_type_str = \<lparr>arg_type = ''str'', required = False\<rparr>"

definition argument_spec :: "(string \<times> arg_option) list" where
  "argument_spec =
     [(''api_url'', dict_type_str),
      (''access_token'', dict_type_str),
      (''template_name'', dict_type_str),
      (''policy_name'', dict_type_str),
      (''app_name'', dict_type_str),
      (''label'', dict_type_str)]"

text \<open>
  Lines 182 to 193.  In check mode \<^verbatim>\<open>module.exit_json(changed=True, backup=backup)\<close> is
  called with the \<^verbatim>\<open>Backup\<close> object itself among its arguments.
\<close>

definition main :: "(string \<Rightarrow> int option) \<Rightarrow> invocation \<Rightarrow> world \<Rightarrow> outcome \<times> world" where
  "main int_str call w =
     (case AnsibleModule argument_spec call of
        Inl failed \<Rightarrow> (failed, w)
      | Inr m \<Rightarrow>
          if check_mode m
          then (exit_json [(''changed'', PBool True), (''backup'', PBackup)], w)
          else application int_str m w)"

section \<open>Vocabulary of the properties\<close>

text \<open>A run starts with nothing sent and the service's answers ahead of it.\<close>

definition service :: "response list \<Rightarrow> world" where
  "service rs = \<lparr>pending = rs, sent = []\<rparr>"

text \<open>The backup-trigger call: a POST to \<^verbatim>\<open>{api_url}/application/{app_id}/backup\<close>.\<close>

fun is_trigger :: "request \<Rightarrow> bool" where
  "is_trigger rq =
     (meth rq = POST \<and>
      (case url rq of
         [Lit a, Lit b, Val i, Lit c] \<Rightarrow> b = ''/application/'' \<and> c = ''/backup''
       | _ \<Rightarrow> False))"

definition trigger_issued :: "world \<Rightarrow> bool" where
  "trigger_issued w = list_ex is_trigger (sent w)"

fun is_error :: "outcome \<Rightarrow> bool" where
  "is_error (Exit kw) = False"
| "is_error (Fail kw) = True"
| "is_error (Crash e) = True"
| "is_error (Rejected r) = True"

text \<open>The steps before the trigger call, each read off the response it depends on.\<close>

definition session_established :: "response \<Rightarrow> bool" where
  "session_established r = (status_code r = 200)"

definition session_id_extracted :: "response \<Rightarrow> bool" where
  "session_id_extracted r =
     (case response_json r of
        Inl e \<Rightarrow> False
      | Inr sj \<Rightarrow> (case getitem sj ''id'' of Inl e \<Rightarrow> False | Inr i \<Rightarrow> True))"

definition entitled :: "response \<Rightarrow> bool" where
  "entitled r =
     (case response_json r of Inl e \<Rightarrow> False | Inr sj \<Rightarrow> rights_expr sj = Inr True)"

definition resolved :: "string \<Rightarrow> string option \<Rightarrow> response \<Rightarrow> bool" where
  "resolved key name r = (case lookup_expr key name r of Inl e \<Rightarrow> False | Inr i \<Rightarrow> True)"

definition prior_steps_succeed :: "ansible_module \<Rightarrow> response list \<Rightarrow> bool" where
  "prior_steps_succeed m rs =
     (case rs of
        r1 # r2 # r3 # r4 # rest \<Rightarrow>
          session_established r1 \<and> session_id_extracted r1 \<and> entitled r1
          \<and> resolved ''name'' (params m ''template_name'') r2
          \<and> resolved ''name'' (params m ''policy_name'') r3
          \<and> resolved ''appname'' (params m ''app_name'') r4
      | _ \<Rightarrow> False)"

section \<open>Concrete runs\<close>

text \<open>The mock service of the specification's section 8, and a module invocation for it.\<close>

definition example_module :: ansible_module where
  "example_module =
     \<lparr>params = [''api_url'' \<mapsto> ''https://gbdr/actifio/'', ''access_token'' \<mapsto> ''tok'',
                 ''template_name'' \<mapsto> ''tpl'', ''policy_name'' \<mapsto> ''pol'',
                 ''app_name'' \<mapsto> ''app''],
      check_mode = False\<rparr>"

definition example_session :: response where
  "example_session =
     \<lparr>status_code = 200,
      content = Some (JObj [(''id'', JStr ''S1''),
                            (''rights'', JList [JObj [(''id'', JStr ''Access to Backup & Recover'')]])])\<rparr>"

definition example_items :: "string \<Rightarrow> int \<Rightarrow> string \<Rightarrow> response" where
  "example_items key i name =
     \<lparr>status_code = 200,
      content = Some (JObj [(''items'', JList [JObj [(''id'', JInt i), (key, JStr name)]])])\<rparr>"

definition example_lookups :: "response list" where
  "example_lookups =
     [example_items ''name'' 1 ''tpl'', example_items ''name'' 2 ''pol'',
      example_items ''appname'' 3 ''app'']"

definition no_int_str :: "string \<Rightarrow> int option" where
  "no_int_str s = None"

definition example_locals :: locals where
  "example_locals =
     \<lparr>api_url = ''https://gbdr/actifio'', access_token = ''tok'',
      template_name = Some ''tpl'', policy_name = Some ''pol'', app_name = Some ''app'',
      label = None\<rparr>"

text \<open>A session whose only right is another one, and a session that lists no rights at all.\<close>

definition other_right_session :: response where
  "other_right_session =
     \<lparr>status_code = 200,
      content = Some (JObj [(''id'', JStr ''S1''),
                            (''rights'', JList [JObj [(''id'', JStr ''Dashboard'')]])])\<rparr>"

definition no_rights_session :: response where
  "no_rights_session = \<lparr>status_code = 200, content = Some (JObj [(''id'', JStr ''S1'')])\<rparr>"

fun is_list :: "json \<Rightarrow> bool" where
  "is_list (JList xs) = True"
| "is_list _ = False"

text \<open>The name test of the three lookups, and an item that has both fields a lookup reads.\<close>

definition name_is :: "string \<Rightarrow> string option \<Rightarrow> json \<Rightarrow> bool" where
  "name_is key name t = (case getitem t key of Inl e \<Rightarrow> False | Inr n \<Rightarrow> py_eq n name)"

definition well_formed_item :: "string \<Rightarrow> json \<Rightarrow> bool" where
  "well_formed_item key t =
     ((case getitem t key of Inl e \<Rightarrow> False | Inr n \<Rightarrow> True)
      \<and> (case getitem t ''id'' of Inl e \<Rightarrow> False | Inr i \<Rightarrow> True))"

text \<open>A template list in which the requested name occurs twice, after another template.\<close>

definition duplicate_items :: "json list" where
  "duplicate_items =
     [JObj [(''id'', JInt 7), (''name'', JStr ''other'')],
      JObj [(''id'', JInt 1), (''name'', JStr ''tpl'')],
      JObj [(''id'', JInt 2), (''name'', JStr ''tpl'')]]"

definition duplicate_templates :: response where
  "duplicate_templates =
     \<lparr>status_code = 200, content = Some (JObj [(''items'', JList duplicate_items)])\<rparr>"

definition example_session_json :: json where
  "example_session_json =
     JObj [(''id'', JStr ''S1''),
           (''rights'', JList [JObj [(''id'', JStr ''Access to Backup & Recover'')]])]"


text \<open>
  What every result of \<^verbatim>\<open>Backup.application\<close> looks like.  On success \<^verbatim>\<open>changed\<close> is
  true and \<^verbatim>\<open>msg\<close> names the application.  A failure is the authentication failure or the
  access-denied failure, both with \<^verbatim>\<open>changed\<close> false, or it carries \<^verbatim>\<open>msg\<close> alone, with
  another message than those two.
\<close>

definition authentication_failed :: "(string \<times> pyval) list" where
  "authentication_failed =
     [(''changed'', PBool False),
      (''msg'', PStr ''Failed authentication - ensure you have authenticated with gcloud'')]"

definition access_denied :: "(string \<times> pyval) list" where
  "access_denied =
     [(''changed'', PBool False), (''msg'', PStr ''You do not have access to invoke BackupNow'')]"

fun msg_alone :: "(string \<times> pyval) list \<Rightarrow> string option" where
  "msg_alone [(k, PStr s)] = (if k = ''msg'' then Some s else None)"
| "msg_alone kw = None"

fun result_contract :: "string option \<Rightarrow> outcome \<Rightarrow> bool" where
  "result_contract app (Exit kw) =
     (kw = [(''changed'', PBool True),
            (''msg'', PStr (''Backup initiated for application '' @ quoted (str_param app)))])"
| "result_contract app (Fail kw) =
     (kw = authentication_failed \<or> kw = access_denied
      \<or> (case msg_alone kw of
            None \<Rightarrow> False
          | Some s \<Rightarrow>
              s \<noteq> ''Failed authentication - ensure you have authenticated with gcloud''
              \<and> s \<noteq> ''You do not have access to invoke BackupNow''))"
| "result_contract app (Crash e) = True"
| "result_contract app (Rejected r) = False"

text \<open>Further invocations and answers for the concrete runs.\<close>

definition empty_label_module :: ansible_module where
  "empty_label_module = example_module\<lparr>params := (params example_module)(''label'' \<mapsto> '''')\<rparr>"

definition labelled_module :: ansible_module where
  "labelled_module = example_module\<lparr>params := (params example_module)(''label'' \<mapsto> ''nightly'')\<rparr>"

definition no_id_session :: response where
  "no_id_session = \<lparr>status_code = 200, content = Some (JObj [])\<rparr>"

definition failed_trigger :: "json \<Rightarrow> response" where
  "failed_trigger body = \<lparr>status_code = 500, content = Some body\<rparr>"

definition missing_template_call :: invocation where
  "missing_template_call =
     \<lparr>given_args = [(''api_url'', ''https://gbdr/actifio/''), (''access_token'', ''tok''),
                     (''policy_name'', ''pol''), (''app_name'', ''app'')],
      run_check_mode = False\<rparr>"

definition check_mode_call :: invocation where
  "check_mode_call =
     \<lparr>given_args = [(''api_url'', ''https://gbdr/actifio/''), (''access_token'', ''tok''),
                     (''template_name'', ''tpl''), (''policy_name'', ''pol''),
                     (''app_name'', ''app'')],
      run_check_mode = True\<rparr>"

text \<open>A successful answer to the trigger call.\<close>

definition accepted_trigger :: response where
  "accepted_trigger = \<lparr>status_code = 202, content = None\<rparr>"

text \<open>
  A template list whose first item has the requested name and an id, and whose second item
  has no name.
\<close>

definition nameless_items :: "json list" where
  "nameless_items =
     [JObj [(''id'', JInt 1), (''name'', JStr ''tpl'')],
      JObj [(''id'', JInt 9)]]"

definition nameless_templates :: response where
  "nameless_templates =
     \<lparr>status_code = 200, content = Some (JObj [(''items'', JList nameless_items)])\<rparr>"

section \<open>The blocks of \<^verbatim>\<open>Backup.application\<close>, one at a time\<close>

lemma requests_call_empty:
  "pending w = [] \<Longrightarrow> requests_call rq w k = (Crash ConnectionError, w\<lparr>sent := sent w @ [rq]\<rparr>)"
  by (simp add: requests_call_def requests_send_def)

lemma requests_call_next:
  "pending w = r # rs \<Longrightarrow> requests_call rq w k = k r \<lparr>pending = rs, sent = sent w @ [rq]\<rparr>"
  by (simp add: requests_call_def requests_send_def)

lemma requests_call_cases:
  "requests_call rq w k =
     (case pending w of
        [] \<Rightarrow> (Crash ConnectionError, w\<lparr>sent := sent w @ [rq]\<rparr>)
      | r # rs \<Rightarrow> k r \<lparr>pending = rs, sent = sent w @ [rq]\<rparr>)"
  by (simp add: requests_call_def requests_send_def split: list.splits)

lemma is_trigger_requests [simp]:
  "\<not> is_trigger (session_request v)" "\<not> is_trigger (template_request v h)"
  "\<not> is_trigger (policy_request v h t)" "\<not> is_trigger (app_request v h)"
  "is_trigger (backup_request v h a p)"
  by (simp_all add: session_request_def template_request_def policy_request_def app_request_def backup_request_def)

declare is_trigger.simps [simp del]

text \<open>A run that does not end in an error has issued the trigger call.\<close>

lemma backup_exit_issued:
  "\<not> is_error (fst (application_backup int_str v h p a w)) \<Longrightarrow>
   trigger_issued (snd (application_backup int_str v h p a w))"
  by (auto simp: application_backup_def requests_call_cases trigger_issued_def split: sum.splits list.splits)

lemma app_exit_issued:
  "\<not> is_error (fst (application_app int_str v h p w)) \<Longrightarrow>
   trigger_issued (snd (application_app int_str v h p w))"
  by (auto simp: application_app_def requests_call_cases  split: sum.splits list.splits dest: backup_exit_issued)

lemma policy_exit_issued:
  "\<not> is_error (fst (application_policy int_str v h t w)) \<Longrightarrow>
   trigger_issued (snd (application_policy int_str v h t w))"
  by (auto simp: application_policy_def requests_call_cases  split: sum.splits list.splits dest: app_exit_issued)

lemma template_exit_issued:
  "\<not> is_error (fst (application_template int_str v s w)) \<Longrightarrow>
   trigger_issued (snd (application_template int_str v s w))"
  by (auto simp: application_template_def requests_call_cases  split: sum.splits list.splits dest: policy_exit_issued)

lemma session_exit_issued:
  "\<not> is_error (fst (application_session int_str v w)) \<Longrightarrow>
   trigger_issued (snd (application_session int_str v w))"
  by (auto simp: application_session_def requests_call_cases  split: sum.splits list.splits if_splits dest: template_exit_issued)

lemma application_exit_issued:
  "\<not> is_error (fst (application int_str m w)) \<Longrightarrow>
   trigger_issued (snd (application int_str m w))"
  by (auto simp: application_def split: sum.splits dest: session_exit_issued)

text \<open>
  A trigger call in the record of a block was either there before the block ran, or every
  step of the block succeeded and the block sent exactly its requests, the trigger last.
\<close>

lemma backup_issued:
  "list_ex is_trigger (sent (snd (application_backup int_str v h p a w))) \<Longrightarrow>
   list_ex is_trigger (sent w) \<or>
   (\<exists>pol. py_int int_str p = Inr pol \<and>
      sent (snd (application_backup int_str v h p a w)) = sent w @ [backup_request v h a pol])"
  by (auto simp: application_backup_def requests_call_cases split: sum.splits list.splits if_splits)

lemma app_issued:
  "list_ex is_trigger (sent (snd (application_app int_str v h p w))) \<Longrightarrow>
   list_ex is_trigger (sent w) \<or>
   (\<exists>r rest a pol. pending w = r # rest \<and> lookup_expr ''appname'' (app_name v) r = Inr a
      \<and> py_int int_str p = Inr pol \<and>
      sent (snd (application_app int_str v h p w)) = sent w @ [app_request v h, backup_request v h a pol])"
  by (auto simp: application_app_def requests_call_cases split: sum.splits list.splits dest!: backup_issued)

lemma policy_issued:
  "list_ex is_trigger (sent (snd (application_policy int_str v h t w))) \<Longrightarrow>
   list_ex is_trigger (sent w) \<or>
   (\<exists>r3 r4 rest p a pol. pending w = r3 # r4 # rest
      \<and> lookup_expr ''name'' (policy_name v) r3 = Inr p
      \<and> lookup_expr ''appname'' (app_name v) r4 = Inr a
      \<and> py_int int_str p = Inr pol \<and>
      sent (snd (application_policy int_str v h t w))
        = sent w @ [policy_request v h t, app_request v h, backup_request v h a pol])"
  by (auto simp: application_policy_def requests_call_cases split: sum.splits list.splits dest!: app_issued)

lemma template_issued:
  "list_ex is_trigger (sent (snd (application_template int_str v s w))) \<Longrightarrow>
   list_ex is_trigger (sent w) \<or>
   (\<exists>r2 r3 r4 rest t p a pol. pending w = r2 # r3 # r4 # rest
      \<and> lookup_expr ''name'' (template_name v) r2 = Inr t
      \<and> lookup_expr ''name'' (policy_name v) r3 = Inr p
      \<and> lookup_expr ''appname'' (app_name v) r4 = Inr a
      \<and> py_int int_str p = Inr pol \<and>
      sent (snd (application_template int_str v s w))
        = sent w @ [template_request v (session_headers (access_token v) s),
                    policy_request v (session_headers (access_token v) s) t,
                    app_request v (session_headers (access_token v) s),
                    backup_request v (session_headers (access_token v) s) a pol])"
  by (auto simp: application_template_def requests_call_cases split: sum.splits list.splits dest!: policy_issued)

lemma session_issued:
  "list_ex is_trigger (sent (snd (application_session int_str v w))) \<Longrightarrow>
   list_ex is_trigger (sent w) \<or>
   (\<exists>r1 r2 r3 r4 rest sj s t p a pol. pending w = r1 # r2 # r3 # r4 # rest
      \<and> status_code r1 = 200 \<and> response_json r1 = Inr sj \<and> getitem sj ''id'' = Inr s
      \<and> rights_expr sj = Inr True
      \<and> lookup_expr ''name'' (template_name v) r2 = Inr t
      \<and> lookup_expr ''name'' (policy_name v) r3 = Inr p
      \<and> lookup_expr ''appname'' (app_name v) r4 = Inr a
      \<and> py_int int_str p = Inr pol \<and>
      sent (snd (application_session int_str v w))
        = sent w @ [session_request v,
                    template_request v (session_headers (access_token v) s),
                    policy_request v (session_headers (access_token v) s) t,
                    app_request v (session_headers (access_token v) s),
                    backup_request v (session_headers (access_token v) s) a pol])"
  by (auto simp: application_session_def requests_call_cases split: sum.splits list.splits if_splits dest!: template_issued)

lemma application_issued:
  assumes "trigger_issued (snd (application int_str m (service rs)))"
  shows "\<exists>v r1 r2 r3 r4 rest sj s t p a pol. read_params m = Inr v \<and> rs = r1 # r2 # r3 # r4 # rest
      \<and> status_code r1 = 200 \<and> response_json r1 = Inr sj \<and> getitem sj ''id'' = Inr s
      \<and> rights_expr sj = Inr True
      \<and> lookup_expr ''name'' (template_name v) r2 = Inr t
      \<and> lookup_expr ''name'' (policy_name v) r3 = Inr p
      \<and> lookup_expr ''appname'' (app_name v) r4 = Inr a
      \<and> py_int int_str p = Inr pol \<and>
      sent (snd (application int_str m (service rs)))
        = [session_request v,
                    template_request v (session_headers (access_token v) s),
                    policy_request v (session_headers (access_token v) s) t,
                    app_request v (session_headers (access_token v) s),
                    backup_request v (session_headers (access_token v) s) a pol]"
proof (cases "read_params m")
  case (Inl e)
  with assms show ?thesis by (simp add: application_def trigger_issued_def service_def)
next
  case (Inr v)
  with assms have "list_ex is_trigger (sent (snd (application_session int_str v (service rs))))"
    by (simp add: application_def trigger_issued_def)
  from session_issued [OF this] Inr show ?thesis
    by (simp add: service_def application_def)
qed

lemma read_params_fields:
  "read_params m = Inr v \<Longrightarrow> template_name v = params m ''template_name''
     \<and> policy_name v = params m ''policy_name'' \<and> app_name v = params m ''app_name''
     \<and> label v = params m ''label''"
  by (auto simp: read_params_def split: option.splits)

text \<open>What a comprehension that did not raise says about its items.\<close>

lemma bnd_Inr_iff: "bnd x f = Inr b \<longleftrightarrow> (\<exists>v. x = Inr v \<and> f v = Inr b)"
  by (cases x) (simp_all add: bnd_def)

lemma bnd_Inl_iff: "bnd x f = Inl e \<longleftrightarrow> x = Inl e \<or> (\<exists>v. x = Inr v \<and> f v = Inl e)"
  by (cases x) (simp_all add: bnd_def)

lemma comprehension_inv:
  "comprehension cond elt xs = Inr ys \<Longrightarrow>
     (\<forall>x\<in>set xs. \<exists>b. cond x = Inr b)
     \<and> (\<forall>x\<in>set xs. cond x = Inr True \<longrightarrow> (\<exists>y. elt x = Inr y))
     \<and> (ys \<noteq> [] \<longrightarrow> (\<exists>x\<in>set xs. cond x = Inr True))"
proof (induction xs arbitrary: ys)
  case Nil
  then show ?case by simp
next
  case (Cons x xs)
  then show ?case
    by (auto simp: bnd_def split: sum.splits if_splits)
qed

lemma rights_expr_inv:
  assumes "rights_expr sj = Inr True"
  shows "\<exists>rv rs. getitem sj ''rights'' = Inr rv \<and> py_iter rv = Inr rs
     \<and> (\<forall>r\<in>set rs. \<exists>i. getitem r ''id'' = Inr i)
     \<and> (\<exists>r\<in>set rs. getitem r ''id'' = Inr (JStr required_right))"
proof -
  let ?cond = "\<lambda>r. bnd (getitem r ''id'') (\<lambda>i. Inr (i = JStr required_right))"
  from assms obtain rv rs ys where
    rv: "getitem sj ''rights'' = Inr rv" and rs: "py_iter rv = Inr rs"
    and c: "comprehension ?cond (\<lambda>r. Inr True) rs = Inr ys" and f: "first ys = Inr True"
    by (auto simp: rights_expr_def bnd_def split: sum.splits)
  from f have "ys \<noteq> []" by auto
  with comprehension_inv [OF c] have
    a: "\<forall>x\<in>set rs. \<exists>b. ?cond x = Inr b" and b: "\<exists>x\<in>set rs. ?cond x = Inr True"
    by blast+
  from a have "\<forall>r\<in>set rs. \<exists>i. getitem r ''id'' = Inr i"
    by (auto simp: bnd_Inr_iff)
  moreover from b have "\<exists>r\<in>set rs. getitem r ''id'' = Inr (JStr required_right)"
    by (auto simp: bnd_Inr_iff)
  ultimately show ?thesis using rv rs by blast
qed

lemma py_iter_not_list:
  assumes "\<not> is_list rv" and "py_iter rv = Inr rs" and "r \<in> set rs"
  shows "getitem r k = Inl TypeError"
  using assms by (cases rv) auto

lemma session_denied:
  assumes "pending w = r1 # rest" and "status_code r1 = 200" and "response_json r1 = Inr sj"
    and "getitem sj ''id'' = Inr s" and "rights_expr sj \<noteq> Inr True"
  shows "application_session int_str v w =
     (Fail [(''changed'', PBool False), (''msg'', PStr ''You do not have access to invoke BackupNow'')],
      \<lparr>pending = rest, sent = sent w @ [session_request v]\<rparr>)"
  using assms by (auto simp: application_session_def requests_call_cases split: sum.splits)

text \<open>The lookup expression: what a result says about the list, and when there is one.\<close>

lemma bnd_simps [simp]: "bnd (Inr v) f = f v" "bnd (Inl e) f = Inl e"
  by (simp_all add: bnd_def)

lemma well_formed_item_iff:
  "well_formed_item key t \<longleftrightarrow>
     (\<exists>n. getitem t key = Inr n) \<and> (\<exists>i. getitem t ''id'' = Inr i)"
  by (cases "getitem t key"; cases "getitem t ''id''") (simp_all add: well_formed_item_def)

lemma name_is_iff: "name_is key name t \<longleftrightarrow> (\<exists>n. getitem t key = Inr n \<and> py_eq n name)"
  by (cases "getitem t key") (simp_all add: name_is_def)

lemma cond_name_is:
  "bnd (getitem t key) (\<lambda>n. Inr (py_eq n name)) = Inr True \<longleftrightarrow> name_is key name t"
  by (simp add: name_is_def bnd_def split: sum.splits)

lemma comprehension_first:
  "comprehension cond elt xs = Inr ys \<Longrightarrow> first ys = Inr v \<Longrightarrow>
   \<exists>x. find (\<lambda>x. cond x = Inr True) xs = Some x \<and> elt x = Inr v"
proof (induction xs arbitrary: ys)
  case Nil
  then show ?case by simp
next
  case (Cons x xs)
  then show ?case
    by (auto simp: bnd_Inr_iff split: if_splits)
qed

lemma comprehension_total:
  "(\<forall>x\<in>set xs. \<exists>b. cond x = Inr b) \<Longrightarrow>
   (\<forall>x\<in>set xs. cond x = Inr True \<longrightarrow> (\<exists>y. elt x = Inr y)) \<Longrightarrow>
   \<exists>ys. comprehension cond elt xs = Inr ys
     \<and> first ys = (case find (\<lambda>x. cond x = Inr True) xs of None \<Rightarrow> Inl IndexError | Some x \<Rightarrow> elt x)"
proof (induction xs)
  case Nil
  then show ?case by simp
next
  case (Cons x xs)
  then obtain b where b: "cond x = Inr b" by auto
  from Cons obtain ys where ys: "comprehension cond elt xs = Inr ys"
    "first ys = (case find (\<lambda>x. cond x = Inr True) xs of None \<Rightarrow> Inl IndexError | Some x \<Rightarrow> elt x)"
    by auto
  show ?case
  proof (cases b)
    case True
    with b Cons.prems obtain y where "elt x = Inr y" by auto
    with b True ys show ?thesis by (simp add: bnd_def)
  next
    case False
    with b ys show ?thesis by (simp add: bnd_def)
  qed
qed

lemma lookup_expr_inv:
  assumes "lookup_expr key name resp = Inr v"
  shows "\<exists>j items ts t. response_json resp = Inr j \<and> getitem j ''items'' = Inr items
     \<and> py_iter items = Inr ts
     \<and> (\<forall>t\<in>set ts. \<exists>n. getitem t key = Inr n)
     \<and> (\<forall>t\<in>set ts. name_is key name t \<longrightarrow> (\<exists>i. getitem t ''id'' = Inr i))
     \<and> find (name_is key name) ts = Some t \<and> getitem t ''id'' = Inr v"
proof -
  let ?cond = "\<lambda>t. bnd (getitem t key) (\<lambda>n. Inr (py_eq n name))"
  from assms obtain j items ts ys where
    j: "response_json resp = Inr j" and items: "getitem j ''items'' = Inr items"
    and ts: "py_iter items = Inr ts"
    and c: "comprehension ?cond (\<lambda>t. getitem t ''id'') ts = Inr ys" and f: "first ys = Inr v"
    by (auto simp: lookup_expr_def bnd_Inr_iff)
  from comprehension_first [OF c f] obtain t where
    t: "find (name_is key name) ts = Some t" "getitem t ''id'' = Inr v"
    by (auto simp: cond_name_is)
  from comprehension_inv [OF c] have
    a: "\<forall>t\<in>set ts. \<exists>b. ?cond t = Inr b"
    and b: "\<forall>t\<in>set ts. ?cond t = Inr True \<longrightarrow> (\<exists>i. getitem t ''id'' = Inr i)"
    by blast+
  from a have "\<forall>t\<in>set ts. \<exists>n. getitem t key = Inr n"
    by (auto simp: bnd_Inr_iff)
  moreover from b have "\<forall>t\<in>set ts. name_is key name t \<longrightarrow> (\<exists>i. getitem t ''id'' = Inr i)"
    by (simp only: cond_name_is)
  ultimately show ?thesis using j items ts t by blast
qed

lemma lookup_expr_well_formed:
  assumes "content resp = Some (JObj kvs)" and "map_of kvs ''items'' = Some (JList ts)"
    and "\<forall>t\<in>set ts. well_formed_item key t"
  shows "lookup_expr key name resp =
     (case find (name_is key name) ts of None \<Rightarrow> Inl IndexError | Some t \<Rightarrow> getitem t ''id'')"
proof -
  let ?cond = "\<lambda>t. bnd (getitem t key) (\<lambda>n. Inr (py_eq n name))"
  from assms(3) have a: "\<forall>x\<in>set ts. \<exists>b. ?cond x = Inr b"
    by (auto simp: well_formed_item_iff bnd_Inr_iff)
  from assms(3) have b: "\<forall>x\<in>set ts. ?cond x = Inr True \<longrightarrow> (\<exists>y. getitem x ''id'' = Inr y)"
    by (auto simp: well_formed_item_iff)
  from comprehension_total [OF a b] have "\<exists>ys.
    comprehension ?cond (\<lambda>t. getitem t ''id'') ts = Inr ys
    \<and> first ys = (case find (name_is key name) ts of None \<Rightarrow> Inl IndexError
        | Some x \<Rightarrow> getitem x ''id'')"
    by (simp only: cond_name_is)
  then obtain ys where
    c: "comprehension ?cond (\<lambda>t. getitem t ''id'') ts = Inr ys"
    and f: "first ys = (case find (name_is key name) ts of None \<Rightarrow> Inl IndexError
        | Some x \<Rightarrow> getitem x ''id'')"
    by blast
  from assms(1,2) c have "lookup_expr key name resp = first ys"
    by (simp add: lookup_expr_def response_json_def)
  with f show ?thesis by simp
qed

text \<open>Each block, once its response is there: the failure it reports or the block it goes on to.\<close>

lemma session_ok:
  assumes "pending w = r1 # rest" and "status_code r1 = 200" and "response_json r1 = Inr sj"
    and "getitem sj ''id'' = Inr s" and "rights_expr sj = Inr True"
  shows "application_session int_str v w =
     application_template int_str v s \<lparr>pending = rest, sent = sent w @ [session_request v]\<rparr>"
  using assms by (simp add: application_session_def requests_call_cases)

lemma template_step:
  assumes "pending w = r # rest"
  shows "application_template int_str v s w =
     (case lookup_expr ''name'' (template_name v) r of
        Inl e \<Rightarrow>
          (Fail [(''msg'', PStr (''Failed to retrieve SLA template ''
                    @ quoted (str_param (template_name v))))],
           \<lparr>pending = rest,
            sent = sent w @ [template_request v (session_headers (access_token v) s)]\<rparr>)
      | Inr t \<Rightarrow>
          application_policy int_str v (session_headers (access_token v) s) t
            \<lparr>pending = rest,
             sent = sent w @ [template_request v (session_headers (access_token v) s)]\<rparr>)"
  using assms by (simp add: application_template_def requests_call_cases)

lemma policy_step:
  assumes "pending w = r # rest"
  shows "application_policy int_str v h t w =
     (case lookup_expr ''name'' (policy_name v) r of
        Inl e \<Rightarrow>
          (Fail [(''msg'', PStr (''Failed to retrieve SLA template policy ''
                    @ quoted (str_param (policy_name v))
                    @ '' for SLA template '' @ quoted (str_param (template_name v))))],
           \<lparr>pending = rest, sent = sent w @ [policy_request v h t]\<rparr>)
      | Inr p \<Rightarrow>
          application_app int_str v h p
            \<lparr>pending = rest, sent = sent w @ [policy_request v h t]\<rparr>)"
  using assms by (simp add: application_policy_def requests_call_cases)

lemma app_step:
  assumes "pending w = r # rest"
  shows "application_app int_str v h p w =
     (case lookup_expr ''appname'' (app_name v) r of
        Inl e \<Rightarrow>
          (Fail [(''msg'', PStr (''Failed to retrieve application ''
                    @ quoted (str_param (app_name v))))],
           \<lparr>pending = rest, sent = sent w @ [app_request v h]\<rparr>)
      | Inr a \<Rightarrow>
          application_backup int_str v h p a
            \<lparr>pending = rest, sent = sent w @ [app_request v h]\<rparr>)"
  using assms by (simp add: application_app_def requests_call_cases)


text \<open>
  No invocation is failed for a parameter it lacks: the specification requires none.  In
  check mode the exit raises before anything is printed.
\<close>

lemma AnsibleModule_accepts:
  assumes "set (map fst (given_args call)) \<subseteq> set (map fst argument_spec)"
  shows "AnsibleModule argument_spec call =
     Inr \<lparr>params = (\<lambda>k. if k \<in> set (map fst argument_spec)
                           then map_of (given_args call) k else None),
          check_mode = run_check_mode call\<rparr>"
proof -
  from assms have "filter (\<lambda>k. k \<notin> set (map fst argument_spec)) (map fst (given_args call)) = []"
    by (auto simp: filter_empty_conv)
  moreover have "filter (\<lambda>(k, opt). required opt \<and> map_of (given_args call) k = None)
      argument_spec = []"
    by (simp add: argument_spec_def dict_type_str_def)
  ultimately show ?thesis
    by (simp add: AnsibleModule_def Let_def)
qed

lemma check_mode_exit:
  assumes "set (map fst (given_args call)) \<subseteq> set (map fst argument_spec)"
    and "run_check_mode call"
  shows "main int_str call w = (Crash TypeError, w)"
  using assms(2) by (simp add: main_def AnsibleModule_accepts [OF assms(1)] exit_json_def)

text \<open>The remaining ways a block ends, once its response is there.\<close>

lemma session_auth_failed:
  assumes "pending w = r1 # rest" and "status_code r1 \<noteq> 200"
  shows "application_session int_str v w =
     (Fail authentication_failed, \<lparr>pending = rest, sent = sent w @ [session_request v]\<rparr>)"
  using assms by (simp add: application_session_def requests_call_cases authentication_failed_def)

lemma session_no_id:
  assumes "pending w = r1 # rest" and "status_code r1 = 200" and "response_json r1 = Inr sj"
    and "getitem sj ''id'' = Inl KeyError"
  shows "application_session int_str v w =
     (Fail [(''msg'', PStr ''Failed to get session ID on authentication'')],
      \<lparr>pending = rest, sent = sent w @ [session_request v]\<rparr>)"
  using assms by (simp add: application_session_def requests_call_cases)

lemma backup_step:
  assumes "pending w = r # rest" and "py_int int_str p = Inr pol"
  shows "application_backup int_str v h p a w =
     (if status_code r < 200 \<or> status_code r > 204
      then Fail [(''msg'', PStr (''Failed to initiate backup of application ''
                   @ quoted (str_param (app_name v))
                   @ '' (HTTP '' @ str_int (status_code r) @ '': ''
                   @ bound_method_json r @ '')''))]
      else Exit [(''changed'', PBool True),
                 (''msg'', PStr (''Backup initiated for application ''
                   @ quoted (str_param (app_name v))))],
      \<lparr>pending = rest, sent = sent w @ [backup_request v h a pol]\<rparr>)"
  using assms by (simp add: application_backup_def requests_call_cases)

text \<open>What a block has sent when it ends, whatever the answers.\<close>

lemma backup_sent:
  assumes "py_int int_str p = Inr pol"
  shows "sent (snd (application_backup int_str v h p a w)) = sent w @ [backup_request v h a pol]"
  using assms by (simp add: application_backup_def requests_call_cases split: list.splits)

lemma app_sent:
  "\<exists>more. sent (snd (application_app int_str v h p w)) = sent w @ app_request v h # more"
  by (cases "py_int int_str p")
     (auto simp: application_app_def application_backup_def requests_call_cases
        split: list.splits sum.splits)

lemma policy_sent:
  "\<exists>more. sent (snd (application_policy int_str v h t w)) = sent w @ policy_request v h t # more"
proof (cases "pending w")
  case Nil
  then show ?thesis by (simp add: application_policy_def requests_call_cases)
next
  case (Cons r rest)
  show ?thesis
  proof (cases "lookup_expr ''name'' (policy_name v) r")
    case (Inl e)
    with Cons show ?thesis by (simp add: policy_step [OF Cons])
  next
    case (Inr p)
    from app_sent [of int_str v h p "\<lparr>pending = rest, sent = sent w @ [policy_request v h t]\<rparr>"]
    obtain more where "sent (snd (application_app int_str v h p
        \<lparr>pending = rest, sent = sent w @ [policy_request v h t]\<rparr>))
        = (sent w @ [policy_request v h t]) @ app_request v h # more"
      by auto
    then show ?thesis by (simp add: policy_step [OF Cons] Inr)
  qed
qed

text \<open>The shape of the result, block by block from the last.\<close>

lemma backup_contract:
  "result_contract (app_name v) (fst (application_backup int_str v h p a w))"
  by (simp add: application_backup_def requests_call_cases split: sum.splits list.splits)

lemma app_contract:
  "result_contract (app_name v) (fst (application_app int_str v h p w))"
  by (simp add: application_app_def requests_call_cases backup_contract
      split: sum.splits list.splits)

lemma policy_contract:
  "result_contract (app_name v) (fst (application_policy int_str v h t w))"
  by (simp add: application_policy_def requests_call_cases app_contract
      split: sum.splits list.splits)

lemma template_contract:
  "result_contract (app_name v) (fst (application_template int_str v s w))"
  by (simp add: application_template_def requests_call_cases policy_contract
      split: sum.splits list.splits)

lemma session_contract:
  "result_contract (app_name v) (fst (application_session int_str v w))"
  by (simp add: application_session_def requests_call_cases template_contract
      authentication_failed_def access_denied_def split: sum.splits list.splits)

lemma application_contract:
  "result_contract (params m ''app_name'') (fst (application int_str m w))"
proof (cases "read_params m")
  case (Inl e)
  then show ?thesis by (simp add: application_def)
next
  case (Inr v)
  with session_contract [of v int_str w] read_params_fields [OF Inr] show ?thesis
    by (simp add: application_def)
qed

text \<open>A run whose session step succeeded is the template block on the answers that follow.\<close>

lemma application_after_session:
  assumes "read_params m = Inr v"
    and "status_code r1 = 200" and "response_json r1 = Inr sj" and "getitem sj ''id'' = Inr s"
    and "rights_expr sj = Inr True"
  shows "application int_str m (service (r1 # rs)) =
      application_template int_str v s \<lparr>pending = rs, sent = [session_request v]\<rparr>"
  using session_ok [OF _ assms(2-5), of "service (r1 # rs)" rs int_str v] assms(1)
  by (simp add: application_def service_def)

text \<open>The lookup expression resolves exactly when the scan of the whole list goes through.\<close>

lemma lookup_expr_resolves:
  assumes "response_json resp = Inr j" and "getitem j ''items'' = Inr items"
    and "py_iter items = Inr ts"
    and a: "\<forall>t\<in>set ts. \<exists>n. getitem t key = Inr n"
    and b: "\<forall>t\<in>set ts. name_is key name t \<longrightarrow> (\<exists>x. getitem t ''id'' = Inr x)"
    and i: "i < length ts" "name_is key name (ts ! i)" "\<forall>k<i. \<not> name_is key name (ts ! k)"
  shows "lookup_expr key name resp = getitem (ts ! i) ''id''"
proof -
  let ?cond = "\<lambda>t. bnd (getitem t key) (\<lambda>n. Inr (py_eq n name))"
  from a have a': "\<forall>x\<in>set ts. \<exists>b. ?cond x = Inr b"
    by (auto simp: bnd_Inr_iff)
  from b have b': "\<forall>x\<in>set ts. ?cond x = Inr True \<longrightarrow> (\<exists>y. getitem x ''id'' = Inr y)"
    by (simp only: cond_name_is)
  from comprehension_total [OF a' b'] have "\<exists>ys.
    comprehension ?cond (\<lambda>t. getitem t ''id'') ts = Inr ys
    \<and> first ys = (case find (name_is key name) ts of None \<Rightarrow> Inl IndexError
        | Some x \<Rightarrow> getitem x ''id'')"
    by (simp only: cond_name_is)
  then obtain ys where
    c: "comprehension ?cond (\<lambda>t. getitem t ''id'') ts = Inr ys"
    and f: "first ys = (case find (name_is key name) ts of None \<Rightarrow> Inl IndexError
        | Some x \<Rightarrow> getitem x ''id'')"
    by blast
  from i have "find (name_is key name) ts = Some (ts ! i)"
    by (auto simp: find_Some_iff)
  with f have "first ys = getitem (ts ! i) ''id''" by simp
  moreover from assms(1-3) c have "lookup_expr key name resp = first ys"
    by (simp add: lookup_expr_def)
  ultimately show ?thesis by simp
qed

lemma lookup_expr_iff:
  "lookup_expr key name resp = Inr x \<longleftrightarrow>
     (\<exists>j items ts i. response_json resp = Inr j \<and> getitem j ''items'' = Inr items
        \<and> py_iter items = Inr ts
        \<and> (\<forall>t\<in>set ts. \<exists>n. getitem t key = Inr n)
        \<and> (\<forall>t\<in>set ts. name_is key name t \<longrightarrow> (\<exists>y. getitem t ''id'' = Inr y))
        \<and> i < length ts \<and> name_is key name (ts ! i)
        \<and> (\<forall>k<i. \<not> name_is key name (ts ! k))
        \<and> getitem (ts ! i) ''id'' = Inr x)"
proof
  assume "lookup_expr key name resp = Inr x"
  from lookup_expr_inv [OF this] obtain j items ts t where
    *: "response_json resp = Inr j" "getitem j ''items'' = Inr items" "py_iter items = Inr ts"
      "\<forall>t\<in>set ts. \<exists>n. getitem t key = Inr n"
      "\<forall>t\<in>set ts. name_is key name t \<longrightarrow> (\<exists>i. getitem t ''id'' = Inr i)"
    and f: "find (name_is key name) ts = Some t" and x: "getitem t ''id'' = Inr x"
    by blast
  from f obtain i where "i < length ts" "name_is key name (ts ! i)" "t = ts ! i"
    "\<forall>k<i. \<not> name_is key name (ts ! k)"
    by (auto simp: find_Some_iff)
  with * x show "\<exists>j items ts i. response_json resp = Inr j \<and> getitem j ''items'' = Inr items
        \<and> py_iter items = Inr ts
        \<and> (\<forall>t\<in>set ts. \<exists>n. getitem t key = Inr n)
        \<and> (\<forall>t\<in>set ts. name_is key name t \<longrightarrow> (\<exists>y. getitem t ''id'' = Inr y))
        \<and> i < length ts \<and> name_is key name (ts ! i)
        \<and> (\<forall>k<i. \<not> name_is key name (ts ! k))
        \<and> getitem (ts ! i) ''id'' = Inr x"
    by blast
next
  assume "\<exists>j items ts i. response_json resp = Inr j \<and> getitem j ''items'' = Inr items
        \<and> py_iter items = Inr ts
        \<and> (\<forall>t\<in>set ts. \<exists>n. getitem t key = Inr n)
        \<and> (\<forall>t\<in>set ts. name_is key name t \<longrightarrow> (\<exists>y. getitem t ''id'' = Inr y))
        \<and> i < length ts \<and> name_is key name (ts ! i)
        \<and> (\<forall>k<i. \<not> name_is key name (ts ! k))
        \<and> getitem (ts ! i) ''id'' = Inr x"
  then obtain j items ts i where
    *: "response_json resp = Inr j" "getitem j ''items'' = Inr items" "py_iter items = Inr ts"
      "\<forall>t\<in>set ts. \<exists>n. getitem t key = Inr n"
      "\<forall>t\<in>set ts. name_is key name t \<longrightarrow> (\<exists>y. getitem t ''id'' = Inr y)"
      "i < length ts" "name_is key name (ts ! i)" "\<forall>k<i. \<not> name_is key name (ts ! k)"
    and x: "getitem (ts ! i) ''id'' = Inr x"
    by blast
  from lookup_expr_resolves [OF *] x show "lookup_expr key name resp = Inr x" by simp
qed

section \<open>Properties\<close>

text \<open>
  C1.  For every module invocation and every sequence of service responses: if a step before
  the backup-trigger call fails (the session call or its status, the session id, the
  entitlement check, the template, policy or application lookup; a response that never comes
  is a failed step), the run ends in an error and no POST to
  \<^verbatim>\<open>{api_url}/application/{app_id}/backup\<close> is among the requests made.  Where the trigger
  call is made, every prior step has succeeded, and it is the fifth and last request, made
  once.
\<close>

theorem no_trigger_before_all_steps_succeed:
  "(\<not> prior_steps_succeed m rs \<longrightarrow>
       is_error (fst (application int_str m (service rs)))
       \<and> \<not> trigger_issued (snd (application int_str m (service rs))))
   \<and> (trigger_issued (snd (application int_str m (service rs))) \<longrightarrow>
       prior_steps_succeed m rs
       \<and> length (sent (snd (application int_str m (service rs)))) = 5
       \<and> is_trigger (last (sent (snd (application int_str m (service rs)))))
       \<and> \<not> list_ex is_trigger (butlast (sent (snd (application int_str m (service rs))))))"
proof -
  have iss: "prior_steps_succeed m rs
       \<and> length (sent (snd (application int_str m (service rs)))) = 5
       \<and> is_trigger (last (sent (snd (application int_str m (service rs)))))
       \<and> \<not> list_ex is_trigger (butlast (sent (snd (application int_str m (service rs)))))"
    if "trigger_issued (snd (application int_str m (service rs)))"
  proof -
    from application_issued [OF that] obtain v r1 r2 r3 r4 rest sj s t p a pol where
      v: "read_params m = Inr v" and rs: "rs = r1 # r2 # r3 # r4 # rest"
      and r1: "status_code r1 = 200" "response_json r1 = Inr sj" "getitem sj ''id'' = Inr s"
        "rights_expr sj = Inr True"
      and lk: "lookup_expr ''name'' (template_name v) r2 = Inr t"
        "lookup_expr ''name'' (policy_name v) r3 = Inr p"
        "lookup_expr ''appname'' (app_name v) r4 = Inr a"
      and tr: "sent (snd (application int_str m (service rs)))
        = [session_request v,
                    template_request v (session_headers (access_token v) s),
                    policy_request v (session_headers (access_token v) s) t,
                    app_request v (session_headers (access_token v) s),
                    backup_request v (session_headers (access_token v) s) a pol]"
      by blast
    have "prior_steps_succeed m rs"
      using rs r1 lk read_params_fields [OF v]
      by (simp add: prior_steps_succeed_def session_established_def session_id_extracted_def
          entitled_def resolved_def)
    then show ?thesis by (simp add: tr)
  qed
  moreover have "is_error (fst (application int_str m (service rs)))"
    if "\<not> trigger_issued (snd (application int_str m (service rs)))"
    using that application_exit_issued by blast
  ultimately show ?thesis by blast
qed


theorem no_trigger_before_all_steps_succeed_witness:
  "\<not> prior_steps_succeed example_module [example_session, \<lparr>status_code = 200, content = None\<rparr>]
   \<and> is_error (fst (application no_int_str example_module
        (service [example_session, \<lparr>status_code = 200, content = None\<rparr>])))
   \<and> \<not> trigger_issued (snd (application no_int_str example_module
        (service [example_session, \<lparr>status_code = 200, content = None\<rparr>])))
   \<and> trigger_issued (snd (application no_int_str example_module
        (service (example_session # example_lookups))))
   \<and> prior_steps_succeed example_module (example_session # example_lookups)"
proof -
  have h1: "\<not> prior_steps_succeed example_module
      [example_session, \<lparr>status_code = 200, content = None\<rparr>]"
    by code_simp
  have h2: "trigger_issued (snd (application no_int_str example_module
        (service (example_session # example_lookups))))"
    by code_simp
  from h1 h2
    no_trigger_before_all_steps_succeed
      [where m = example_module and int_str = no_int_str
         and rs = "[example_session, \<lparr>status_code = 200, content = None\<rparr>]"]
    no_trigger_before_all_steps_succeed
      [where m = example_module and int_str = no_int_str
         and rs = "example_session # example_lookups"]
  show ?thesis by blast
qed

text \<open>
  C4.  For every session response with status 200 that carries a session id and whose
  \<^verbatim>\<open>rights\<close> list holds no right with id "Access to Backup & Recover", the run fails with
  the access-denied message, and the session call is the only request made: no template,
  policy, application or backup call follows.
\<close>

theorem no_entitlement_denies_before_any_lookup:
  assumes "read_params m = Inr v"
    and "status_code r1 = 200" and "response_json r1 = Inr sj" and "getitem sj ''id'' = Inr s"
    and "getitem sj ''rights'' = Inr (JList rights)"
    and "\<forall>r\<in>set rights. getitem r ''id'' \<noteq> Inr (JStr ''Access to Backup & Recover'')"
  shows "application int_str m (service (r1 # rest)) =
     (Fail [(''changed'', PBool False), (''msg'', PStr ''You do not have access to invoke BackupNow'')],
      \<lparr>pending = rest, sent = [session_request v]\<rparr>)"
proof -
  have "rights_expr sj \<noteq> Inr True"
  proof
    assume "rights_expr sj = Inr True"
    from rights_expr_inv [OF this] assms(5,6) show False
      by (auto simp: required_right_def)
  qed
  from session_denied [OF _ assms(2,3,4) this, of "service (r1 # rest)" rest int_str v] assms(1)
  show ?thesis by (simp add: application_def service_def)
qed

theorem no_entitlement_denies_before_any_lookup_witness:
  "application no_int_str example_module (service [other_right_session]) =
     (Fail [(''changed'', PBool False), (''msg'', PStr ''You do not have access to invoke BackupNow'')],
      \<lparr>pending = [], sent = [session_request example_locals]\<rparr>)"
proof -
  have h1: "read_params example_module = Inr example_locals" by code_simp
  have h2: "status_code other_right_session = 200" by code_simp
  have h3: "response_json other_right_session =
      Inr (JObj [(''id'', JStr ''S1''), (''rights'', JList [JObj [(''id'', JStr ''Dashboard'')]])])"
    by code_simp
  have h4: "getitem (JObj [(''id'', JStr ''S1''), (''rights'', JList [JObj [(''id'', JStr ''Dashboard'')]])])
      ''id'' = Inr (JStr ''S1'')"
    by simp
  have h5: "getitem (JObj [(''id'', JStr ''S1''), (''rights'', JList [JObj [(''id'', JStr ''Dashboard'')]])])
      ''rights'' = Inr (JList [JObj [(''id'', JStr ''Dashboard'')]])"
    by simp
  have h6: "\<forall>r\<in>set [JObj [(''id'', JStr ''Dashboard'')]].
      getitem r ''id'' \<noteq> Inr (JStr ''Access to Backup & Recover'')"
    by simp
  from no_entitlement_denies_before_any_lookup [OF h1 h2 h3 h4 h5 h6]
  show ?thesis .
qed

text \<open>
  C9.  For every session response with status 200 that carries an \<^verbatim>\<open>id\<close> and whose
  \<^verbatim>\<open>rights\<close> field is missing, is not a list, or is a list with an entry that has no
  readable \<^verbatim>\<open>id\<close>, the run fails with "You do not have access to invoke BackupNow", the
  same result as a genuine lack of the right: the exception of the scan is caught and read
  as no access.
\<close>

theorem unreadable_rights_deny_access:
  assumes "read_params m = Inr v"
    and "status_code r1 = 200" and "response_json r1 = Inr sj" and "getitem sj ''id'' = Inr s"
    and "getitem sj ''rights'' = Inl KeyError
         \<or> (\<exists>rv. getitem sj ''rights'' = Inr rv \<and> \<not> is_list rv)
         \<or> (\<exists>xs. getitem sj ''rights'' = Inr (JList xs) \<and> (\<exists>x\<in>set xs. \<exists>e. getitem x ''id'' = Inl e))"
  shows "application int_str m (service (r1 # rest)) =
     (Fail [(''changed'', PBool False), (''msg'', PStr ''You do not have access to invoke BackupNow'')],
      \<lparr>pending = rest, sent = [session_request v]\<rparr>)"
proof -
  have "rights_expr sj \<noteq> Inr True"
  proof
    assume "rights_expr sj = Inr True"
    from rights_expr_inv [OF this] obtain rv rs where
      rv: "getitem sj ''rights'' = Inr rv" and rs: "py_iter rv = Inr rs"
      and all: "\<forall>r\<in>set rs. \<exists>i. getitem r ''id'' = Inr i"
      and ex: "\<exists>r\<in>set rs. getitem r ''id'' = Inr (JStr required_right)"
      by blast
    from assms(5) show False
    proof (elim disjE exE conjE)
      assume "getitem sj ''rights'' = Inl KeyError"
      with rv show False by simp
    next
      fix rv' assume "getitem sj ''rights'' = Inr rv'" "\<not> is_list rv'"
      with rv have "\<not> is_list rv" by simp
      from ex obtain r where "r \<in> set rs" "getitem r ''id'' = Inr (JStr required_right)" by blast
      with py_iter_not_list [OF \<open>\<not> is_list rv\<close> rs] show False by simp
    next
      fix xs assume xs: "getitem sj ''rights'' = Inr (JList xs)"
        and "\<exists>x\<in>set xs. \<exists>e. getitem x ''id'' = Inl e"
      then obtain x e where x: "x \<in> set xs" "getitem x ''id'' = Inl e" by blast
      from xs rv rs have "rs = xs" by simp
      with all x(1) obtain i where "getitem x ''id'' = Inr i" by blast
      with x(2) show False by simp
    qed
  qed
  from session_denied [OF _ assms(2,3,4) this, of "service (r1 # rest)" rest int_str v] assms(1)
  show ?thesis by (simp add: application_def service_def)
qed

theorem unreadable_rights_deny_access_witness:
  "application no_int_str example_module (service [no_rights_session]) =
     (Fail [(''changed'', PBool False), (''msg'', PStr ''You do not have access to invoke BackupNow'')],
      \<lparr>pending = [], sent = [session_request example_locals]\<rparr>)"
proof -
  have h1: "read_params example_module = Inr example_locals" by code_simp
  have h2: "status_code no_rights_session = 200" by code_simp
  have h3: "response_json no_rights_session = Inr (JObj [(''id'', JStr ''S1'')])" by code_simp
  have h4: "getitem (JObj [(''id'', JStr ''S1'')]) ''id'' = Inr (JStr ''S1'')" by simp
  have h5: "getitem (JObj [(''id'', JStr ''S1'')]) ''rights'' = Inl KeyError
         \<or> (\<exists>rv. getitem (JObj [(''id'', JStr ''S1'')]) ''rights'' = Inr rv \<and> \<not> is_list rv)
         \<or> (\<exists>xs. getitem (JObj [(''id'', JStr ''S1'')]) ''rights'' = Inr (JList xs)
              \<and> (\<exists>x\<in>set xs. \<exists>e. getitem x ''id'' = Inl e))"
    by simp
  from unreadable_rights_deny_access [OF h1 h2 h3 h4 h5]
  show ?thesis .
qed



text \<open>
  C5, as the code has it.  A name lookup (template by \<^verbatim>\<open>name\<close>, policy by \<^verbatim>\<open>name\<close>,
  application by \<^verbatim>\<open>appname\<close>) resolves to a value exactly when every item of the returned
  list has the name field, every item with the requested name has an \<^verbatim>\<open>id\<close>, and some
  item has the requested name; the value is then the \<^verbatim>\<open>id\<close> of the first such item in
  list order, so among items that share the name the earliest wins.  In a run whose session
  step succeeded, the template lookup is made on the second response and the policy request
  that follows is addressed under the id it resolved to; the policy and application lookups
  are made on the third and fourth response, and the trigger request carries the
  application id in its address and the policy id in its body.
\<close>

theorem lookup_resolves_to_first_match:
  "(lookup_expr key name resp = Inr x \<longleftrightarrow>
     (\<exists>j items ts i. response_json resp = Inr j \<and> getitem j ''items'' = Inr items
        \<and> py_iter items = Inr ts
        \<and> (\<forall>t\<in>set ts. \<exists>n. getitem t key = Inr n)
        \<and> (\<forall>t\<in>set ts. name_is key name t \<longrightarrow> (\<exists>y. getitem t ''id'' = Inr y))
        \<and> i < length ts \<and> name_is key name (ts ! i)
        \<and> (\<forall>k<i. \<not> name_is key name (ts ! k))
        \<and> getitem (ts ! i) ''id'' = Inr x))
   \<and> (read_params m = Inr v
        \<and> status_code r1 = 200 \<and> response_json r1 = Inr sj \<and> getitem sj ''id'' = Inr s
        \<and> rights_expr sj = Inr True
        \<and> lookup_expr ''name'' (template_name v) r2 = Inr t \<longrightarrow>
      (\<exists>more. sent (snd (application int_str m (service (r1 # r2 # rest)))) =
          [session_request v, template_request v (session_headers (access_token v) s), policy_request v (session_headers (access_token v) s) t] @ more)
      \<and> (lookup_expr ''name'' (policy_name v) r3 = Inr p
           \<and> lookup_expr ''appname'' (app_name v) r4 = Inr a
           \<and> py_int int_str p = Inr pol \<longrightarrow>
         sent (snd (application int_str m (service (r1 # r2 # r3 # r4 # rest)))) =
           [session_request v, template_request v (session_headers (access_token v) s), policy_request v (session_headers (access_token v) s) t,
            app_request v (session_headers (access_token v) s), backup_request v (session_headers (access_token v) s) a pol]))"
proof -
  have run: "(\<exists>more. sent (snd (application int_str m (service (r1 # r2 # rest)))) =
          [session_request v, template_request v (session_headers (access_token v) s), policy_request v (session_headers (access_token v) s) t] @ more)
      \<and> (lookup_expr ''name'' (policy_name v) r3 = Inr p
           \<and> lookup_expr ''appname'' (app_name v) r4 = Inr a
           \<and> py_int int_str p = Inr pol \<longrightarrow>
         sent (snd (application int_str m (service (r1 # r2 # r3 # r4 # rest)))) =
           [session_request v, template_request v (session_headers (access_token v) s), policy_request v (session_headers (access_token v) s) t,
            app_request v (session_headers (access_token v) s), backup_request v (session_headers (access_token v) s) a pol])"
    if v: "read_params m = Inr v"
      and r1: "status_code r1 = 200" "response_json r1 = Inr sj" "getitem sj ''id'' = Inr s"
        "rights_expr sj = Inr True"
      and t: "lookup_expr ''name'' (template_name v) r2 = Inr t"
  proof -
    have after: "application int_str m (service (r1 # rs)) =
        application_template int_str v s \<lparr>pending = rs, sent = [session_request v]\<rparr>" for rs
      by (rule application_after_session [OF v r1])
    from policy_sent [of int_str v "session_headers (access_token v) s" t
        "\<lparr>pending = rest, sent = [session_request v, template_request v (session_headers (access_token v) s)]\<rparr>"]
    obtain more where "sent (snd (application_policy int_str v (session_headers (access_token v) s) t
        \<lparr>pending = rest, sent = [session_request v, template_request v (session_headers (access_token v) s)]\<rparr>))
        = [session_request v, template_request v (session_headers (access_token v) s)] @ policy_request v (session_headers (access_token v) s) t # more"
      by auto
    then have first: "\<exists>more. sent (snd (application int_str m (service (r1 # r2 # rest)))) =
          [session_request v, template_request v (session_headers (access_token v) s), policy_request v (session_headers (access_token v) s) t] @ more"
      by (simp add: after template_step [where r = r2 and rest = rest] t)
    have full: "sent (snd (application int_str m (service (r1 # r2 # r3 # r4 # rest)))) =
           [session_request v, template_request v (session_headers (access_token v) s), policy_request v (session_headers (access_token v) s) t,
            app_request v (session_headers (access_token v) s), backup_request v (session_headers (access_token v) s) a pol]"
      if "lookup_expr ''name'' (policy_name v) r3 = Inr p"
        "lookup_expr ''appname'' (app_name v) r4 = Inr a" "py_int int_str p = Inr pol"
      using that
      by (simp add: after template_step [where r = r2 and rest = "r3 # r4 # rest"] t
          policy_step [where r = r3 and rest = "r4 # rest"]
          app_step [where r = r4 and rest = rest] backup_sent [where pol = pol])
    from first full show ?thesis by blast
  qed
  from lookup_expr_iff [of key name resp x] run show ?thesis by blast
qed

theorem lookup_resolves_to_first_match_witness:
  "sent (snd (application no_int_str example_module
          (service [example_session, duplicate_templates, example_items ''name'' 2 ''pol'',
                    example_items ''appname'' 3 ''app''])))
     = [session_request example_locals,
        template_request example_locals (session_headers ''tok'' (JStr ''S1'')),
        policy_request example_locals (session_headers ''tok'' (JStr ''S1'')) (JInt 1),
        app_request example_locals (session_headers ''tok'' (JStr ''S1'')),
        backup_request example_locals (session_headers ''tok'' (JStr ''S1'')) (JInt 3) 2]"
proof -
  have h: "read_params example_module = Inr example_locals
      \<and> status_code example_session = 200 \<and> response_json example_session = Inr example_session_json
      \<and> getitem example_session_json ''id'' = Inr (JStr ''S1'')
      \<and> rights_expr example_session_json = Inr True
      \<and> lookup_expr ''name'' (template_name example_locals) duplicate_templates = Inr (JInt 1)"
    by code_simp
  have g: "lookup_expr ''name'' (policy_name example_locals) (example_items ''name'' 2 ''pol'')
          = Inr (JInt 2)
      \<and> lookup_expr ''appname'' (app_name example_locals) (example_items ''appname'' 3 ''app'')
          = Inr (JInt 3)
      \<and> py_int no_int_str (JInt 2) = Inr 2"
    by code_simp
  from h g lookup_resolves_to_first_match
    [where m = example_module and int_str = no_int_str and v = example_locals
       and ?r1.0 = example_session and sj = example_session_json and s = "JStr ''S1''"
       and ?r2.0 = duplicate_templates and t = "JInt 1"
       and ?r3.0 = "example_items ''name'' 2 ''pol''" and p = "JInt 2"
       and ?r4.0 = "example_items ''appname'' 3 ''app''" and a = "JInt 3" and pol = 2
       and rest = "[]"]
  have "sent (snd (application no_int_str example_module
          (service [example_session, duplicate_templates, example_items ''name'' 2 ''pol'',
                    example_items ''appname'' 3 ''app''])))
     = [session_request example_locals,
        template_request example_locals (session_headers (access_token example_locals) (JStr ''S1'')),
        policy_request example_locals (session_headers (access_token example_locals) (JStr ''S1''))
          (JInt 1),
        app_request example_locals (session_headers (access_token example_locals) (JStr ''S1'')),
        backup_request example_locals (session_headers (access_token example_locals) (JStr ''S1''))
          (JInt 3) 2]"
    by blast
  then show ?thesis by (simp add: example_locals_def)
qed

text \<open>
  C5 as stated fails: the first item of the list has the requested name and the id 1, and
  the lookup does not resolve to 1.  The second item has no name, the scan of the list
  raises \<^verbatim>\<open>KeyError\<close>, and the run fails with the template reported as not retrieved.
\<close>

theorem first_match_not_resolved_counterexample:
  "name_is ''name'' (Some ''tpl'') (nameless_items ! 0)
   \<and> getitem (nameless_items ! 0) ''id'' = Inr (JInt 1)
   \<and> lookup_expr ''name'' (Some ''tpl'') nameless_templates = Inl KeyError
   \<and> fst (application no_int_str example_module (service [example_session, nameless_templates]))
       = Fail [(''msg'', PStr (''Failed to retrieve SLA template '' @ quoted ''tpl''))]"
  by code_simp

text \<open>
  C6.  In check mode no request is made and no response is consumed, and nothing is
  reported either: the exit is called with the \<^verbatim>\<open>Backup\<close> object among its arguments
  and raises \<^verbatim>\<open>TypeError\<close> before a result is printed.
\<close>

theorem check_mode_exit_raises:
  "run_check_mode check_mode_call
   \<and> main no_int_str check_mode_call (service [example_session])
       = (Crash TypeError, service [example_session])"
  by code_simp

text \<open>
  C7, as the code has it.  Every result \<^verbatim>\<open>Backup.application\<close> hands to the host framework
  carries a string \<^verbatim>\<open>msg\<close>.  On success \<^verbatim>\<open>changed\<close> is true and \<^verbatim>\<open>msg\<close> is "Backup
  initiated for application '<app_name>'".  On failure \<^verbatim>\<open>changed\<close> is false where it is
  given, and it is given on the authentication-failure and the access-denied path only:
  the failures for a missing session id, for each of the three lookups and for the status
  of the trigger call carry \<^verbatim>\<open>msg\<close> alone.  The second part of the statement says which
  answers lead to which of these results.  An exception nobody catches hands over no result.
\<close>

theorem application_result_shape:
  "result_contract (params m ''app_name'') (fst (application int_str m w))
   \<and> (read_params m = Inr v \<longrightarrow>
        (status_code r1 \<noteq> 200 \<longrightarrow>
          fst (application int_str m (service (r1 # rest))) =
            Fail [(''changed'', PBool False),
                  (''msg'', PStr ''Failed authentication - ensure you have authenticated with gcloud'')])
      \<and> (status_code r1 = 200 \<and> response_json r1 = Inr sj
          \<and> getitem sj ''id'' = Inl KeyError \<longrightarrow>
          fst (application int_str m (service (r1 # rest))) =
            Fail [(''msg'', PStr ''Failed to get session ID on authentication'')])
      \<and> (status_code r1 = 200 \<and> response_json r1 = Inr sj \<and> getitem sj ''id'' = Inr s
          \<and> rights_expr sj \<noteq> Inr True \<longrightarrow>
          fst (application int_str m (service (r1 # rest))) =
            Fail [(''changed'', PBool False),
                  (''msg'', PStr ''You do not have access to invoke BackupNow'')])
      \<and> (status_code r1 = 200 \<and> response_json r1 = Inr sj \<and> getitem sj ''id'' = Inr s
          \<and> rights_expr sj = Inr True
          \<and> lookup_expr ''name'' (template_name v) r2 = Inl e \<longrightarrow>
          fst (application int_str m (service (r1 # r2 # rest))) =
            Fail [(''msg'', PStr (''Failed to retrieve SLA template ''
                    @ quoted (str_param (template_name v))))])
      \<and> (status_code r1 = 200 \<and> response_json r1 = Inr sj \<and> getitem sj ''id'' = Inr s
          \<and> rights_expr sj = Inr True
          \<and> lookup_expr ''name'' (template_name v) r2 = Inr t
          \<and> lookup_expr ''name'' (policy_name v) r3 = Inl e \<longrightarrow>
          fst (application int_str m (service (r1 # r2 # r3 # rest))) =
            Fail [(''msg'', PStr (''Failed to retrieve SLA template policy ''
                    @ quoted (str_param (policy_name v))
                    @ '' for SLA template '' @ quoted (str_param (template_name v))))])
      \<and> (status_code r1 = 200 \<and> response_json r1 = Inr sj \<and> getitem sj ''id'' = Inr s
          \<and> rights_expr sj = Inr True
          \<and> lookup_expr ''name'' (template_name v) r2 = Inr t
          \<and> lookup_expr ''name'' (policy_name v) r3 = Inr p
          \<and> lookup_expr ''appname'' (app_name v) r4 = Inl e \<longrightarrow>
          fst (application int_str m (service (r1 # r2 # r3 # r4 # rest))) =
            Fail [(''msg'', PStr (''Failed to retrieve application ''
                    @ quoted (str_param (app_name v))))])
      \<and> (status_code r1 = 200 \<and> response_json r1 = Inr sj \<and> getitem sj ''id'' = Inr s
          \<and> rights_expr sj = Inr True
          \<and> lookup_expr ''name'' (template_name v) r2 = Inr t
          \<and> lookup_expr ''name'' (policy_name v) r3 = Inr p
          \<and> lookup_expr ''appname'' (app_name v) r4 = Inr a
          \<and> py_int int_str p = Inr pol \<longrightarrow>
          fst (application int_str m (service (r1 # r2 # r3 # r4 # r5 # rest))) =
            (if status_code r5 < 200 \<or> status_code r5 > 204
             then Fail [(''msg'', PStr (''Failed to initiate backup of application ''
                          @ quoted (str_param (app_name v))
                          @ '' (HTTP '' @ str_int (status_code r5) @ '': ''
                          @ bound_method_json r5 @ '')''))]
             else Exit [(''changed'', PBool True),
                        (''msg'', PStr (''Backup initiated for application ''
                          @ quoted (str_param (app_name v))))])))"
proof -
  have shape: "result_contract (params m ''app_name'') (fst (application int_str m w))"
    by (rule application_contract)
  have paths: "(status_code r1 \<noteq> 200 \<longrightarrow>
          fst (application int_str m (service (r1 # rest))) =
            Fail [(''changed'', PBool False),
                  (''msg'', PStr ''Failed authentication - ensure you have authenticated with gcloud'')])
      \<and> (status_code r1 = 200 \<and> response_json r1 = Inr sj
          \<and> getitem sj ''id'' = Inl KeyError \<longrightarrow>
          fst (application int_str m (service (r1 # rest))) =
            Fail [(''msg'', PStr ''Failed to get session ID on authentication'')])
      \<and> (status_code r1 = 200 \<and> response_json r1 = Inr sj \<and> getitem sj ''id'' = Inr s
          \<and> rights_expr sj \<noteq> Inr True \<longrightarrow>
          fst (application int_str m (service (r1 # rest))) =
            Fail [(''changed'', PBool False),
                  (''msg'', PStr ''You do not have access to invoke BackupNow'')])
      \<and> (status_code r1 = 200 \<and> response_json r1 = Inr sj \<and> getitem sj ''id'' = Inr s
          \<and> rights_expr sj = Inr True
          \<and> lookup_expr ''name'' (template_name v) r2 = Inl e \<longrightarrow>
          fst (application int_str m (service (r1 # r2 # rest))) =
            Fail [(''msg'', PStr (''Failed to retrieve SLA template ''
                    @ quoted (str_param (template_name v))))])
      \<and> (status_code r1 = 200 \<and> response_json r1 = Inr sj \<and> getitem sj ''id'' = Inr s
          \<and> rights_expr sj = Inr True
          \<and> lookup_expr ''name'' (template_name v) r2 = Inr t
          \<and> lookup_expr ''name'' (policy_name v) r3 = Inl e \<longrightarrow>
          fst (application int_str m (service (r1 # r2 # r3 # rest))) =
            Fail [(''msg'', PStr (''Failed to retrieve SLA template policy ''
                    @ quoted (str_param (policy_name v))
                    @ '' for SLA template '' @ quoted (str_param (template_name v))))])
      \<and> (status_code r1 = 200 \<and> response_json r1 = Inr sj \<and> getitem sj ''id'' = Inr s
          \<and> rights_expr sj = Inr True
          \<and> lookup_expr ''name'' (template_name v) r2 = Inr t
          \<and> lookup_expr ''name'' (policy_name v) r3 = Inr p
          \<and> lookup_expr ''appname'' (app_name v) r4 = Inl e \<longrightarrow>
          fst (application int_str m (service (r1 # r2 # r3 # r4 # rest))) =
            Fail [(''msg'', PStr (''Failed to retrieve application ''
                    @ quoted (str_param (app_name v))))])
      \<and> (status_code r1 = 200 \<and> response_json r1 = Inr sj \<and> getitem sj ''id'' = Inr s
          \<and> rights_expr sj = Inr True
          \<and> lookup_expr ''name'' (template_name v) r2 = Inr t
          \<and> lookup_expr ''name'' (policy_name v) r3 = Inr p
          \<and> lookup_expr ''appname'' (app_name v) r4 = Inr a
          \<and> py_int int_str p = Inr pol \<longrightarrow>
          fst (application int_str m (service (r1 # r2 # r3 # r4 # r5 # rest))) =
            (if status_code r5 < 200 \<or> status_code r5 > 204
             then Fail [(''msg'', PStr (''Failed to initiate backup of application ''
                          @ quoted (str_param (app_name v))
                          @ '' (HTTP '' @ str_int (status_code r5) @ '': ''
                          @ bound_method_json r5 @ '')''))]
             else Exit [(''changed'', PBool True),
                        (''msg'', PStr (''Backup initiated for application ''
                          @ quoted (str_param (app_name v))))]))"
    if v: "read_params m = Inr v"
  proof -
    have start: "application int_str m (service (r1 # rs)) =
        application_session int_str v \<lparr>pending = r1 # rs, sent = []\<rparr>" for rs
      using v by (simp add: application_def service_def)
    have after: "application int_str m (service (r1 # rs)) =
        application_template int_str v s \<lparr>pending = rs, sent = [session_request v]\<rparr>"
      if "status_code r1 = 200 \<and> response_json r1 = Inr sj \<and> getitem sj ''id'' = Inr s
          \<and> rights_expr sj = Inr True" for rs
      using that application_after_session [OF v, of r1 sj s int_str rs] by simp
    have auth: "status_code r1 \<noteq> 200 \<longrightarrow>
        fst (application int_str m (service (r1 # rest))) =
          Fail [(''changed'', PBool False),
                (''msg'', PStr ''Failed authentication - ensure you have authenticated with gcloud'')]"
      by (simp add: start session_auth_failed [where ?r1.0 = r1 and rest = rest]
          authentication_failed_def)
    have noid: "status_code r1 = 200 \<and> response_json r1 = Inr sj
        \<and> getitem sj ''id'' = Inl KeyError \<longrightarrow>
        fst (application int_str m (service (r1 # rest))) =
          Fail [(''msg'', PStr ''Failed to get session ID on authentication'')]"
      by (simp add: start session_no_id [where ?r1.0 = r1 and rest = rest and sj = sj])
    have den: "status_code r1 = 200 \<and> response_json r1 = Inr sj \<and> getitem sj ''id'' = Inr s
        \<and> rights_expr sj \<noteq> Inr True \<longrightarrow>
        fst (application int_str m (service (r1 # rest))) =
          Fail [(''changed'', PBool False),
                (''msg'', PStr ''You do not have access to invoke BackupNow'')]"
      by (simp add: start session_denied [where ?r1.0 = r1 and rest = rest and sj = sj and s = s])
    have tpl: "status_code r1 = 200 \<and> response_json r1 = Inr sj \<and> getitem sj ''id'' = Inr s
        \<and> rights_expr sj = Inr True
        \<and> lookup_expr ''name'' (template_name v) r2 = Inl e \<longrightarrow>
        fst (application int_str m (service (r1 # r2 # rest))) =
          Fail [(''msg'', PStr (''Failed to retrieve SLA template ''
                  @ quoted (str_param (template_name v))))]"
      by (simp add: after template_step [where r = r2 and rest = rest])
    have pol: "status_code r1 = 200 \<and> response_json r1 = Inr sj \<and> getitem sj ''id'' = Inr s
        \<and> rights_expr sj = Inr True
        \<and> lookup_expr ''name'' (template_name v) r2 = Inr t
        \<and> lookup_expr ''name'' (policy_name v) r3 = Inl e \<longrightarrow>
        fst (application int_str m (service (r1 # r2 # r3 # rest))) =
          Fail [(''msg'', PStr (''Failed to retrieve SLA template policy ''
                  @ quoted (str_param (policy_name v))
                  @ '' for SLA template '' @ quoted (str_param (template_name v))))]"
      by (simp add: after template_step [where r = r2 and rest = "r3 # rest"]
          policy_step [where r = r3 and rest = rest])
    have app: "status_code r1 = 200 \<and> response_json r1 = Inr sj \<and> getitem sj ''id'' = Inr s
        \<and> rights_expr sj = Inr True
        \<and> lookup_expr ''name'' (template_name v) r2 = Inr t
        \<and> lookup_expr ''name'' (policy_name v) r3 = Inr p
        \<and> lookup_expr ''appname'' (app_name v) r4 = Inl e \<longrightarrow>
        fst (application int_str m (service (r1 # r2 # r3 # r4 # rest))) =
          Fail [(''msg'', PStr (''Failed to retrieve application ''
                  @ quoted (str_param (app_name v))))]"
      by (simp add: after template_step [where r = r2 and rest = "r3 # r4 # rest"]
          policy_step [where r = r3 and rest = "r4 # rest"]
          app_step [where r = r4 and rest = rest])
    have trig: "status_code r1 = 200 \<and> response_json r1 = Inr sj \<and> getitem sj ''id'' = Inr s
        \<and> rights_expr sj = Inr True
        \<and> lookup_expr ''name'' (template_name v) r2 = Inr t
        \<and> lookup_expr ''name'' (policy_name v) r3 = Inr p
        \<and> lookup_expr ''appname'' (app_name v) r4 = Inr a
        \<and> py_int int_str p = Inr pol \<longrightarrow>
        fst (application int_str m (service (r1 # r2 # r3 # r4 # r5 # rest))) =
          (if status_code r5 < 200 \<or> status_code r5 > 204
           then Fail [(''msg'', PStr (''Failed to initiate backup of application ''
                        @ quoted (str_param (app_name v))
                        @ '' (HTTP '' @ str_int (status_code r5) @ '': ''
                        @ bound_method_json r5 @ '')''))]
           else Exit [(''changed'', PBool True),
                      (''msg'', PStr (''Backup initiated for application ''
                        @ quoted (str_param (app_name v))))])"
      by (simp add: after template_step [where r = r2 and rest = "r3 # r4 # r5 # rest"]
          policy_step [where r = r3 and rest = "r4 # r5 # rest"]
          app_step [where r = r4 and rest = "r5 # rest"]
          backup_step [where r = r5 and rest = rest and pol = pol])
    from auth noid den tpl pol app trig show ?thesis by blast
  qed
  from shape paths show ?thesis by blast
qed

theorem application_result_shape_witness:
  "fst (application no_int_str example_module
          (service [example_session, example_items ''name'' 1 ''tpl'',
                    example_items ''name'' 2 ''pol'', example_items ''appname'' 3 ''app'',
                    accepted_trigger]))
     = Exit [(''changed'', PBool True),
             (''msg'', PStr (''Backup initiated for application '' @ quoted ''app''))]
   \<and> fst (application no_int_str example_module (service [failed_trigger JNull]))
     = Fail [(''changed'', PBool False),
             (''msg'', PStr ''Failed authentication - ensure you have authenticated with gcloud'')]"
proof -
  have h1: "read_params example_module = Inr example_locals" by code_simp
  have h2: "status_code example_session = 200 \<and> response_json example_session = Inr example_session_json
      \<and> getitem example_session_json ''id'' = Inr (JStr ''S1'')
      \<and> rights_expr example_session_json = Inr True
      \<and> lookup_expr ''name'' (template_name example_locals) (example_items ''name'' 1 ''tpl'')
          = Inr (JInt 1)
      \<and> lookup_expr ''name'' (policy_name example_locals) (example_items ''name'' 2 ''pol'')
          = Inr (JInt 2)
      \<and> lookup_expr ''appname'' (app_name example_locals) (example_items ''appname'' 3 ''app'')
          = Inr (JInt 3)
      \<and> py_int no_int_str (JInt 2) = Inr 2"
    by code_simp
  have h3: "status_code (failed_trigger JNull) \<noteq> 200" by code_simp
  from h1 h2 application_result_shape
    [where m = example_module and int_str = no_int_str and v = example_locals
       and ?r1.0 = example_session and sj = example_session_json and s = "JStr ''S1''"
       and ?r2.0 = "example_items ''name'' 1 ''tpl''" and t = "JInt 1"
       and ?r3.0 = "example_items ''name'' 2 ''pol''" and p = "JInt 2"
       and ?r4.0 = "example_items ''appname'' 3 ''app''" and a = "JInt 3" and pol = 2
       and ?r5.0 = accepted_trigger and rest = "[]"]
  have "fst (application no_int_str example_module
          (service [example_session, example_items ''name'' 1 ''tpl'',
                    example_items ''name'' 2 ''pol'', example_items ''appname'' 3 ''app'',
                    accepted_trigger]))
     = (if status_code accepted_trigger < 200 \<or> status_code accepted_trigger > 204
             then Fail [(''msg'', PStr (''Failed to initiate backup of application ''
                          @ quoted (str_param (app_name example_locals))
                          @ '' (HTTP '' @ str_int (status_code accepted_trigger) @ '': ''
                          @ bound_method_json accepted_trigger @ '')''))]
             else Exit [(''changed'', PBool True),
                        (''msg'', PStr (''Backup initiated for application ''
                          @ quoted (str_param (app_name example_locals))))])"
    by blast
  then have ok: "fst (application no_int_str example_module
          (service [example_session, example_items ''name'' 1 ''tpl'',
                    example_items ''name'' 2 ''pol'', example_items ''appname'' 3 ''app'',
                    accepted_trigger]))
     = Exit [(''changed'', PBool True),
             (''msg'', PStr (''Backup initiated for application '' @ quoted ''app''))]"
    by (simp add: accepted_trigger_def example_locals_def)
  from h1 h3 application_result_shape
    [where m = example_module and int_str = no_int_str and v = example_locals
       and ?r1.0 = "failed_trigger JNull" and rest = "[]"]
  have "fst (application no_int_str example_module (service [failed_trigger JNull]))
     = Fail [(''changed'', PBool False),
             (''msg'', PStr ''Failed authentication - ensure you have authenticated with gcloud'')]"
    by blast
  with ok show ?thesis by simp
qed

text \<open>
  C7 as stated fails: a session answer with status 200 and no \<^verbatim>\<open>id\<close> ends the run in a
  failure whose result has \<^verbatim>\<open>msg\<close> and no \<^verbatim>\<open>changed\<close>.
\<close>

theorem failure_without_changed_counterexample:
  "fst (application no_int_str example_module (service [no_id_session]))
     = Fail [(''msg'', PStr ''Failed to get session ID on authentication'')]
   \<and> map_of [(''msg'', PStr ''Failed to get session ID on authentication'')] ''changed'' = None"
  by code_simp

text \<open>
  C8, as the code has it.  In every run that makes the trigger call, the body of that request
  is \<^verbatim>\<open>{"policy": {"id": int(pol_id)}}\<close>, where \<open>pol_id\<close> is what the policy lookup
  resolved to, followed by \<^verbatim>\<open>"label": label\<close>, the parameter unchanged, exactly when the
  label is given and is not the empty string.  An absent label and an empty one both leave
  the policy entry alone in the body.
\<close>

theorem backup_body_policy_and_nonempty_label:
  assumes "trigger_issued (snd (application int_str m (service rs)))"
  shows "\<exists>pol_id pol.
      lookup_expr ''name'' (params m ''policy_name'') (rs ! 2) = Inr pol_id
      \<and> py_int int_str pol_id = Inr pol
      \<and> json_body (last (sent (snd (application int_str m (service rs))))) =
          Some (JObj ((''policy'', JObj [(''id'', JInt pol)])
                      # (case params m ''label'' of
                           None \<Rightarrow> []
                         | Some l \<Rightarrow> if l = [] then [] else [(''label'', JStr l)])))"
proof -
  from application_issued [OF assms] obtain v r1 r2 r3 r4 rest sj s t p a pol where
    v: "read_params m = Inr v" and rs: "rs = r1 # r2 # r3 # r4 # rest"
    and lk: "lookup_expr ''name'' (policy_name v) r3 = Inr p" and pi: "py_int int_str p = Inr pol"
    and tr: "sent (snd (application int_str m (service rs)))
        = [session_request v,
                    template_request v (session_headers (access_token v) s),
                    policy_request v (session_headers (access_token v) s) t,
                    app_request v (session_headers (access_token v) s),
                    backup_request v (session_headers (access_token v) s) a pol]"
    by blast
  from read_params_fields [OF v] have f: "policy_name v = params m ''policy_name''"
    "label v = params m ''label''" by simp_all
  have "json_body (last (sent (snd (application int_str m (service rs))))) =
          Some (JObj ((''policy'', JObj [(''id'', JInt pol)])
                      # (case params m ''label'' of
                           None \<Rightarrow> []
                         | Some l \<Rightarrow> if l = [] then [] else [(''label'', JStr l)])))"
    by (simp add: tr backup_request_def backup_body_def f split: option.splits)
  with lk pi rs f show ?thesis by simp
qed

theorem backup_body_policy_and_nonempty_label_witness: "json_body (last (sent (snd (application no_int_str labelled_module
        (service (example_session # example_lookups)))))) =
       Some (JObj [(''policy'', JObj [(''id'', JInt 2)]), (''label'', JStr ''nightly'')])"
proof -
  have h: "trigger_issued (snd (application no_int_str labelled_module
        (service (example_session # example_lookups))))" by code_simp
  have l: "params labelled_module ''label'' = Some ''nightly''" by code_simp
  have p: "lookup_expr ''name'' (params labelled_module ''policy_name'')
      ((example_session # example_lookups) ! 2) = Inr (JInt 2)" by code_simp
  from backup_body_policy_and_nonempty_label [OF h] p l show ?thesis by auto
qed

text \<open>
  C8 as stated fails: the label parameter is present, with the empty string as its value,
  and the body has no \<^verbatim>\<open>label\<close> key.
\<close>

theorem empty_label_counterexample: "params empty_label_module ''label'' = Some ''''
   \<and> json_body (last (sent (snd (application no_int_str empty_label_module
        (service (example_session # example_lookups)))))) =
       Some (JObj [(''policy'', JObj [(''id'', JInt 2)])])"
  by code_simp

text \<open>
  C2.  The failure message of a trigger call answered with status 500 holds the status and
  the text of the bound method \<^verbatim>\<open>Response.json\<close>, not the response body: two different
  bodies give the same message, and neither occurs in it.  The call is made once, as the
  fifth request.
\<close>

theorem trigger_failure_message_omits_body: "fst (application no_int_str example_module
       (service (example_session # example_lookups
          @ [failed_trigger (JObj [(''error'', JStr ''disk full'')])])))
     = Fail [(''msg'', PStr (''Failed to initiate backup of application '' @ quoted ''app''
          @ '' (HTTP 500: <bound method Response.json of <Response [500]>>)''))]
   \<and> fst (application no_int_str example_module
       (service (example_session # example_lookups
          @ [failed_trigger (JStr ''no space left'')])))
     = Fail [(''msg'', PStr (''Failed to initiate backup of application '' @ quoted ''app''
          @ '' (HTTP 500: <bound method Response.json of <Response [500]>>)''))]
   \<and> length (sent (snd (application no_int_str example_module
       (service (example_session # example_lookups
          @ [failed_trigger (JObj [(''error'', JStr ''disk full'')])]))))) = 5"
  by code_simp

text \<open>
  C3.  An invocation without \<^verbatim>\<open>template_name\<close> is not rejected: the session call and the
  template call are made, and the run fails on the lookup of the name \<^verbatim>\<open>None\<close>.
\<close>

theorem missing_parameter_not_rejected:
  "map_of (given_args missing_template_call) ''template_name'' = None
   \<and> main no_int_str missing_template_call
       (service [example_session, example_items ''name'' 1 ''tpl'']) =
     (Fail [(''msg'', PStr (''Failed to retrieve SLA template '' @ quoted ''None''))],
      \<lparr>pending = [],
       sent = [session_request (example_locals\<lparr>template_name := None\<rparr>),
               template_request (example_locals\<lparr>template_name := None\<rparr>)
                 (session_headers ''tok'' (JStr ''S1''))]\<rparr>)"
  by code_simp

end
